theory Spec2Isabelle
  imports Main
begin

section \<open>chrome-runner: the Runner class of src/index.js\<close>

text \<open>
  The runner supervises one Chrome child process. Its methods are embedded as state
  transformers over two records: \<open>runner\<close> holds the fields of the \<open>Runner\<close> object,
  \<open>world\<close> holds what lies outside the object (the operating-system platform, the
  answers of the helper modules, the registered listeners and timers) together with the
  ordered trace of every call the runner makes to the outside.

  An \<open>async\<close> method is embedded as running to completion: no process event is
  delivered between two of its \<open>await\<close>s. Process events and timers are separate steps
  (\<open>on_close\<close>, \<open>on_timeout\<close>). The calls into Node and into \<open>rimraf\<close> are
  taken to succeed, except where the code itself provides for their failure: the
  reachability probe may be rejected, the kill request may throw, the platform may be
  unsupported, the finder may return no installation, and \<open>fs.writeFileSync\<close> throws
  when the pid file was never opened.
\<close>

subsection \<open>JavaScript values\<close>

text \<open>Decimal rendering of a non-negative integer, as \<open>Number.prototype.toString\<close>
  and template literals produce it.\<close>

definition digit_char :: "nat \<Rightarrow> char" where
  "digit_char d = ''0123456789'' ! d"

function show_nat :: "nat \<Rightarrow> string" where
  "show_nat n = (if n < 10 then [digit_char n] else show_nat (n div 10) @ [digit_char (n mod 10)])"
  by pat_completeness auto
termination
  by (relation "measure id") auto

declare show_nat.simps [simp del]

text \<open>A template literal renders \<open>undefined\<close> as the text \<open>undefined\<close>.\<close>

definition template_nat :: "nat option \<Rightarrow> string" where
  "template_nat v = (case v of None \<Rightarrow> ''undefined'' | Some n \<Rightarrow> show_nat n)"

definition template_str :: "string option \<Rightarrow> string" where
  "template_str v = (case v of None \<Rightarrow> ''undefined'' | Some x \<Rightarrow> x)"

text \<open>Truthiness: \<open>undefined\<close>, the number 0 and the empty string are falsy.\<close>

definition truthy_nat :: "nat option \<Rightarrow> bool" where
  "truthy_nat v = (case v of None \<Rightarrow> False | Some n \<Rightarrow> n \<noteq> 0)"

definition truthy_str :: "string option \<Rightarrow> bool" where
  "truthy_str v = (case v of None \<Rightarrow> False | Some x \<Rightarrow> x \<noteq> [])"

subsection \<open>The Runner object and its surroundings\<close>

text \<open>
  \<open>chromeProcess\<close> holds the identity of the \<open>ChildProcess\<close> object: child objects
  are numbered in the order \<open>child_process.spawn\<close> creates them, and the operating
  system's pid of the \<open>k\<close>-th child is \<open>child_pid w k\<close>. File handles are the
  descriptors \<open>fs.openSync\<close> returned.
\<close>

record runner =
  port :: "nat option"
  chromePath :: "string option"
  chromeFlags :: "string list"
  tmpDirandPidFileReady :: bool
  chromeProcess :: "nat option"
  chromeDataDir :: "string option"
  chromeOutFile :: "nat option"
  chromeErrorFile :: "nat option"
  pidFile :: "nat option"
  restartUnexpectedChrome :: bool

text \<open>The options object handed to the constructor; \<open>None\<close> is an absent property.\<close>

record options =
  opt_port :: "nat option"
  opt_chromePath :: "string option"
  opt_chromeFlags :: "string list option"

datatype level = Info | Warn | Err

text \<open>The two \<open>close\<close> listeners the runner attaches to a child: the one of
  \<open>handleChromeUnexpectedExit\<close> and the one of \<open>kill\<close>.\<close>

datatype listener = ExitWatcher | KillWaiter

text \<open>The only callback handed to \<open>setTimeout\<close> is \<open>this.spawn.bind(this)\<close>.\<close>

datatype task = SpawnTask

text \<open>Every call that leaves the object, in the order made.\<close>

datatype effect =
    IsPortOpen "nat option"
  | Logger level string
  | MakeTmpDir string
  | OpenSync string nat
  | CloseSync nat
  | RimrafSync "string option"
  | WriteFileSync nat string
  | ChromeFinder string
  | GetRandomPort
  | SpawnChild "string option" "string list" "nat option" "nat option" nat
  | Taskkill nat
  | KillGroup nat
  | Delay nat
  | SetTimeout task nat
  | OnClose nat listener
  | OnSigint
  | KillResolved

datatype error =
    UnsupportedPlatform string
  | NoChromeInstallations
  | ProbeRejected
  | TypeError

text \<open>
  The surroundings. The modules \<open>./flags\<close>, \<open>./util\<close> and \<open>./chrome-finder\<close> are not
  part of the source at hand, so what they export is a parameter here:
  \<open>DEFAULT_FLAGS\<close> and \<open>NOISE_FLAGS\<close> are the two flag tables; \<open>probe_outcome w k\<close>
  tells whether the \<open>k\<close>-th call of \<open>isPortOpen\<close> resolves; \<open>tmp_dir w k\<close> is the
  path the \<open>k\<close>-th \<open>makeTmpDir\<close> returns; \<open>open_fd w k\<close> is the descriptor of the
  \<open>k\<close>-th \<open>fs.openSync\<close>; \<open>random_port\<close> is what \<open>getRandomPort\<close> resolves to;
  \<open>installations\<close> is what \<open>chromeFinder[process.platform]()\<close> resolves to;
  \<open>kill_error\<close> is the message of the exception the kill request throws, if any.
\<close>

record world =
  platform :: string
  DEFAULT_FLAGS :: "string list"
  NOISE_FLAGS :: "string list"
  installations :: "string list"
  probe_outcome :: "nat \<Rightarrow> bool"
  tmp_dir :: "nat \<Rightarrow> string"
  open_fd :: "nat \<Rightarrow> nat"
  child_pid :: "nat \<Rightarrow> nat"
  random_port :: nat
  kill_error :: "string option"
  close_listeners :: "(nat \<times> listener) list"
  sigint_listeners :: nat
  timers :: "(task \<times> nat) list"
  trace :: "effect list"

definition emit :: "effect \<Rightarrow> world \<Rightarrow> world" where
  "emit e w = w\<lparr>trace := trace w @ [e]\<rparr>"

fun is_probe :: "effect \<Rightarrow> bool" where
  "is_probe (IsPortOpen _) = True"
| "is_probe _ = False"

fun is_mktmp :: "effect \<Rightarrow> bool" where
  "is_mktmp (MakeTmpDir _) = True"
| "is_mktmp _ = False"

fun is_open :: "effect \<Rightarrow> bool" where
  "is_open (OpenSync _ _) = True"
| "is_open _ = False"

fun is_spawn :: "effect \<Rightarrow> bool" where
  "is_spawn (SpawnChild _ _ _ _ _) = True"
| "is_spawn _ = False"

definition count_effects :: "(effect \<Rightarrow> bool) \<Rightarrow> world \<Rightarrow> nat" where
  "count_effects P w = length (filter P (trace w))"

definition isWindows :: "world \<Rightarrow> bool" where
  "isWindows w = (platform w = ''win32'')"

definition SUPPORTED_PLATFORMS :: "string list" where
  "SUPPORTED_PLATFORMS = [''darwin'', ''linux'', ''win32'']"

subsection \<open>The constructor\<close>

definition Runner :: "options \<Rightarrow> runner" where
  "Runner opts =
     \<lparr> port = opt_port opts,
       chromePath = opt_chromePath opts,
       chromeFlags = (case opt_chromeFlags opts of Some fs \<Rightarrow> fs | None \<Rightarrow> []),
       tmpDirandPidFileReady = False,
       chromeProcess = None,
       chromeDataDir = None,
       chromeOutFile = None,
       chromeErrorFile = None,
       pidFile = None,
       restartUnexpectedChrome = True \<rparr>"

subsection \<open>The \<open>flags\<close> getter\<close>

definition flags :: "runner \<Rightarrow> world \<Rightarrow> string list" where
  "flags s w =
     (let flags0 = DEFAULT_FLAGS w @
            [''--remote-debugging-port='' @ template_nat (port s),
             ''--user-data-dir='' @ template_str (chromeDataDir s)];
          flags1 = (if platform w = ''linux'' then flags0 @ [''--disable-setuid-sandbox'']
                    else flags0);
          flags2 = flags1 @ chromeFlags s
      in flags2 @ [''about:blank''])"

subsection \<open>\<open>prepare\<close>\<close>

text \<open>A method returns its outcome (\<open>Inl\<close> for an exception or a rejected promise)
  together with the object and the surroundings as it left them: an exception undoes
  nothing.\<close>

definition prepare :: "runner \<Rightarrow> world \<Rightarrow> (error + unit) \<times> runner \<times> world" where
  "prepare s w =
     (if platform w \<notin> set SUPPORTED_PLATFORMS then (Inl (UnsupportedPlatform (platform w)), s, w)
      else
        let dir = tmp_dir w (count_effects is_mktmp w);
            w1 = emit (MakeTmpDir dir) w;
            s1 = s\<lparr>chromeDataDir := Some dir\<rparr>;
            out = open_fd w1 (count_effects is_open w1);
            w2 = emit (OpenSync (template_str (chromeDataDir s1) @ ''/chrome-out.log'') out) w1;
            s2 = s1\<lparr>chromeOutFile := Some out\<rparr>;
            err = open_fd w2 (count_effects is_open w2);
            w3 = emit (OpenSync (template_str (chromeDataDir s2) @ ''/chrome-err.log'') err) w2;
            s3 = s2\<lparr>chromeErrorFile := Some err\<rparr>;
            pf = open_fd w3 (count_effects is_open w3);
            w4 = emit (OpenSync (template_str (chromeDataDir s3) @ ''/chrome.pid'') pf) w3;
            s4 = s3\<lparr>pidFile := Some pf\<rparr>;
            w5 = emit (Logger Info (''created chrome data dir '' @ template_str (chromeDataDir s4))) w4
        in (Inr (), s4\<lparr>tmpDirandPidFileReady := True\<rparr>, w5))"

subsection \<open>\<open>isDebugReady\<close> and \<open>waitUntilReady\<close>\<close>

definition isDebugReady :: "runner \<Rightarrow> world \<Rightarrow> bool \<times> world" where
  "isDebugReady s w = (probe_outcome w (count_effects is_probe w), emit (IsPortOpen (port s)) w)"

text \<open>The closure \<open>poll\<close> of \<open>waitUntilReady\<close>; its captured counter \<open>retries\<close> is
  the second argument.\<close>

function poll :: "runner \<Rightarrow> nat \<Rightarrow> world \<Rightarrow> (error + unit) \<times> world" where
  "poll s retries w =
     (case isDebugReady s w of
        (True, w1) \<Rightarrow> (Inr (), emit (Logger Info ''chrome already now'') w1)
      | (False, w1) \<Rightarrow>
          if retries + 1 > 10 then (Inl ProbeRejected, w1)
          else poll s (retries + 1) (emit (Delay 500) w1))"
  by pat_completeness auto
termination
  by (relation "measure (\<lambda>(s, retries, w). 11 - retries)") auto

declare poll.simps [simp del]

definition waitUntilReady :: "runner \<Rightarrow> world \<Rightarrow> (error + unit) \<times> world" where
  "waitUntilReady s w = poll s 0 (emit (Logger Info ''wait until chrome ready'') w)"

subsection \<open>\<open>handleSIGINT\<close>, \<open>handleChromeUnexpectedExit\<close> and \<open>spawn\<close>\<close>

definition handleSIGINT :: "world \<Rightarrow> world" where
  "handleSIGINT w = emit OnSigint (w\<lparr>sigint_listeners := sigint_listeners w + 1\<rparr>)"

definition handleChromeUnexpectedExit :: "runner \<Rightarrow> world \<Rightarrow> world" where
  "handleChromeUnexpectedExit s w =
     (case chromeProcess s of
        Some c \<Rightarrow> emit (OnClose c ExitWatcher)
                    (w\<lparr>close_listeners := close_listeners w @ [(c, ExitWatcher)]\<rparr>)
      | None \<Rightarrow> w)"

text \<open>\<open>spawn\<close> resolves to the pid when a child is already tracked and to \<open>undefined\<close>
  otherwise. \<open>fs.writeFileSync\<close> throws a \<open>TypeError\<close> when its first argument is
  \<open>undefined\<close>.\<close>

definition spawn :: "runner \<Rightarrow> world \<Rightarrow> (error + nat option) \<times> runner \<times> world" where
  "spawn s w =
     (case chromeProcess s of
        Some c \<Rightarrow>
          (Inr (Some (child_pid w c)), s,
           emit (Logger Info (''chrome already running with pid '' @ show_nat (child_pid w c) @ ''.'')) w)
      | None \<Rightarrow>
          (let (s1, w1) = (if \<not> truthy_nat (port s)
                           then (s\<lparr>port := Some (random_port w)\<rparr>, emit GetRandomPort w)
                           else (s, w));
               c = count_effects is_spawn w1;
               w2 = emit (SpawnChild (chromePath s1) (flags s1 w1)
                            (chromeOutFile s1) (chromeErrorFile s1) c) w1;
               s2 = s1\<lparr>chromeProcess := Some c\<rparr>;
               w3 = handleSIGINT w2;
               w4 = handleChromeUnexpectedExit s2 w3
           in (case pidFile s2 of
                 None \<Rightarrow> (Inl TypeError, s2, w4)
               | Some pf \<Rightarrow>
                   (let w5 = emit (WriteFileSync pf (show_nat (child_pid w4 c))) w4;
                        w6 = emit (Logger Info (''chrome running with pid '' @ show_nat (child_pid w5 c)
                                      @ '' on port '' @ template_nat (port s2) @ ''.'')) w5
                    in (case waitUntilReady s2 w6 of
                          (Inl e, w7) \<Rightarrow> (Inl e, s2, w7)
                        | (Inr u, w7) \<Rightarrow> (Inr None, s2, w7))))))"

subsection \<open>\<open>destroyTmp\<close> and \<open>kill\<close>\<close>

definition destroyTmp :: "runner \<Rightarrow> world \<Rightarrow> runner \<times> world" where
  "destroyTmp s w =
     (let (s1, w1) = (case chromeOutFile s of
                        Some fd \<Rightarrow> (if fd \<noteq> 0 then (s\<lparr>chromeOutFile := None\<rparr>, emit (CloseSync fd) w)
                                    else (s, w))
                      | None \<Rightarrow> (s, w));
          (s2, w2) = (case chromeErrorFile s1 of
                        Some fd \<Rightarrow> (if fd \<noteq> 0 then (s1\<lparr>chromeErrorFile := None\<rparr>, emit (CloseSync fd) w1)
                                    else (s1, w1))
                      | None \<Rightarrow> (s1, w1))
      in (s2, emit (RimrafSync (chromeDataDir s2)) w2))"

text \<open>\<open>kill\<close> returns a promise; the first component tells whether it is already
  resolved when \<open>kill\<close> returns. Otherwise it resolves when the \<open>KillWaiter\<close> runs.\<close>

definition kill :: "runner \<Rightarrow> world \<Rightarrow> bool \<times> runner \<times> world" where
  "kill s w =
     (let s0 = s\<lparr>restartUnexpectedChrome := False\<rparr> in
      case chromeProcess s0 of
        Some c \<Rightarrow>
          let w1 = emit (OnClose c KillWaiter)
                     (w\<lparr>close_listeners := close_listeners w @ [(c, KillWaiter)]\<rparr>);
              w2 = emit (Logger Info ''killing all Chrome Instances'') w1;
              w3 = (if isWindows w2 then emit (Taskkill (child_pid w2 c)) w2
                    else emit (KillGroup (child_pid w2 c)) w2);
              w4 = (case kill_error w3 of
                      Some m \<Rightarrow> emit (Logger Err (''chrome could not be killed '' @ m)) w3
                    | None \<Rightarrow> w3)
          in (False, s0\<lparr>chromeProcess := None\<rparr>, w4)
      | None \<Rightarrow> (True, s0, emit KillResolved w))"

subsection \<open>\<open>launch\<close>\<close>

datatype launch_value = ProbeValue | This

text \<open>Lines 49 to 63 of \<open>launch\<close>: what runs when no port was given or the probe of
  the given port was rejected.\<close>

definition launch_new :: "runner \<Rightarrow> world \<Rightarrow> (error + launch_value) \<times> runner \<times> world" where
  "launch_new s w =
     (case (if \<not> tmpDirandPidFileReady s then prepare s w else (Inr (), s, w)) of
        (Inl e, s1, w1) \<Rightarrow> (Inl e, s1, w1)
      | (Inr _, s1, w1) \<Rightarrow>
          (case (if \<not> truthy_str (chromePath s1)
                 then (let w2 = emit (ChromeFinder (platform w1)) w1 in
                       case installations w2 of
                         p # _ \<Rightarrow> (Inr (), s1\<lparr>chromePath := Some p\<rparr>, w2)
                       | [] \<Rightarrow> (Inl NoChromeInstallations, s1, w2))
                 else (Inr (), s1, w1)) of
             (Inl e, s2, w2) \<Rightarrow> (Inl e, s2, w2)
           | (Inr _, s2, w2) \<Rightarrow>
               (case spawn s2 w2 of
                  (Inl e, s3, w3) \<Rightarrow> (Inl e, s3, w3)
                | (Inr _, s3, w3) \<Rightarrow> (Inr This, s3, w3))))"

definition launch :: "runner \<Rightarrow> world \<Rightarrow> (error + launch_value) \<times> runner \<times> world" where
  "launch s w =
     (if truthy_nat (port s) then
        (case isDebugReady s w of
           (True, w1) \<Rightarrow> (Inr ProbeValue, s, w1)
         | (False, w1) \<Rightarrow>
             launch_new s
               (emit (Logger Warn (''no chrome found on port '' @ template_nat (port s)
                        @ '', launching a new Chrome.'')) w1))
      else launch_new s w)"

subsection \<open>Events: a child closes, a timer expires\<close>

text \<open>The body of each \<open>close\<close> listener.\<close>

fun run_listener :: "listener \<Rightarrow> runner \<times> world \<Rightarrow> runner \<times> world" where
  "run_listener ExitWatcher (s, w) =
     (if restartUnexpectedChrome s
      then (s\<lparr>chromeProcess := None\<rparr>,
            emit (Logger Warn ''chrome exit unexpected, restart it'')
              (emit (SetTimeout SpawnTask 1000) (w\<lparr>timers := timers w @ [(SpawnTask, 1000)]\<rparr>)))
      else (s, w))"
| "run_listener KillWaiter (s, w) =
     (case destroyTmp s w of (s1, w1) \<Rightarrow> (s1, emit KillResolved w1))"

text \<open>Child \<open>c\<close> emits \<open>close\<close>: its listeners run in the order they were attached.
  A child closes once, so its listeners are dropped afterwards.\<close>

definition on_close :: "nat \<Rightarrow> runner \<Rightarrow> world \<Rightarrow> runner \<times> world" where
  "on_close c s w =
     fold run_listener (map snd (filter (\<lambda>cl. fst cl = c) (close_listeners w)))
       (s, w\<lparr>close_listeners := filter (\<lambda>cl. fst cl \<noteq> c) (close_listeners w)\<rparr>)"

text \<open>The oldest pending timer expires: its callback \<open>spawn\<close> runs and its promise is
  dropped.\<close>

definition on_timeout :: "runner \<Rightarrow> world \<Rightarrow> runner \<times> world" where
  "on_timeout s w =
     (case timers w of
        [] \<Rightarrow> (s, w)
      | (SpawnTask, _) # ts \<Rightarrow> (case spawn s (w\<lparr>timers := ts\<rparr>) of (_, s1, w1) \<Rightarrow> (s1, w1)))"

text \<open>What can happen to a session, one after the other.\<close>

datatype event = CallLaunch | CallSpawn | CallKill | ChildClose nat | TimerExpires

fun step :: "event \<Rightarrow> runner \<times> world \<Rightarrow> runner \<times> world" where
  "step CallLaunch (s, w) = snd (launch s w)"
| "step CallSpawn (s, w) = snd (spawn s w)"
| "step CallKill (s, w) = snd (kill s w)"
| "step (ChildClose c) (s, w) = on_close c s w"
| "step TimerExpires (s, w) = on_timeout s w"

definition run :: "event list \<Rightarrow> runner \<times> world \<Rightarrow> runner \<times> world" where
  "run evs sw = fold step evs sw"

subsection \<open>The exported functions\<close>

text \<open>\<open>Object.assign({chromeFlags}, runnerOptions)\<close>: every own property of
  \<open>runnerOptions\<close> overwrites the one of the target.\<close>

definition assign_chromeFlags :: "string list \<Rightarrow> options \<Rightarrow> options" where
  "assign_chromeFlags cf opts =
     opts\<lparr>opt_chromeFlags := (case opt_chromeFlags opts of Some fs \<Rightarrow> Some fs | None \<Rightarrow> Some cf)\<rparr>"

definition launch_default :: "options \<Rightarrow> world \<Rightarrow> (error + launch_value) \<times> runner \<times> world" where
  "launch_default runnerOptions w = launch (Runner runnerOptions) w"

definition launchWithoutNoise :: "options \<Rightarrow> world \<Rightarrow> (error + launch_value) \<times> runner \<times> world" where
  "launchWithoutNoise runnerOptions w =
     (let chromeFlags0 = NOISE_FLAGS w;
          chromeFlags1 = (case opt_chromeFlags runnerOptions of
                            Some fs \<Rightarrow> chromeFlags0 @ fs
                          | None \<Rightarrow> chromeFlags0)
      in launch (Runner (assign_chromeFlags chromeFlags1 runnerOptions)) w)"

definition launchWithHeadless :: "options \<Rightarrow> world \<Rightarrow> (error + launch_value) \<times> runner \<times> world" where
  "launchWithHeadless runnerOptions w =
     (let chromeFlags0 = NOISE_FLAGS w @ [''--headless'', ''--disable-gpu''];
          chromeFlags1 = (case opt_chromeFlags runnerOptions of
                            Some fs \<Rightarrow> chromeFlags0 @ fs
                          | None \<Rightarrow> chromeFlags0)
      in launch (Runner (assign_chromeFlags chromeFlags1 runnerOptions)) w)"

subsection \<open>Observations on the trace\<close>

fun delay_ms :: "effect \<Rightarrow> nat" where
  "delay_ms (Delay d) = d"
| "delay_ms _ = 0"

definition total_delay :: "world \<Rightarrow> nat" where
  "total_delay w = sum_list (map delay_ms (trace w))"

text \<open>What \<open>waitUntilReady\<close> can do to the outside: probe, log, sleep.\<close>

fun is_wait_effect :: "effect \<Rightarrow> bool" where
  "is_wait_effect (IsPortOpen _) = True"
| "is_wait_effect (Logger _ _) = True"
| "is_wait_effect (Delay _) = True"
| "is_wait_effect _ = False"

text \<open>Kill requests and workspace teardown.\<close>

fun is_teardown :: "effect \<Rightarrow> bool" where
  "is_teardown (Taskkill _) = True"
| "is_teardown (KillGroup _) = True"
| "is_teardown (CloseSync _) = True"
| "is_teardown (RimrafSync _) = True"
| "is_teardown _ = False"

text \<open>Calls that create or write a file or a directory.\<close>

fun is_fs_write :: "effect \<Rightarrow> bool" where
  "is_fs_write (MakeTmpDir _) = True"
| "is_fs_write (OpenSync _ _) = True"
| "is_fs_write (WriteFileSync _ _) = True"
| "is_fs_write _ = False"

fun is_settimeout :: "effect \<Rightarrow> bool" where
  "is_settimeout (SetTimeout _ _) = True"
| "is_settimeout _ = False"

fun is_sigint_reg :: "effect \<Rightarrow> bool" where
  "is_sigint_reg OnSigint = True"
| "is_sigint_reg _ = False"

fun is_watcher_reg :: "effect \<Rightarrow> bool" where
  "is_watcher_reg (OnClose _ ExitWatcher) = True"
| "is_watcher_reg _ = False"

text \<open>The effects added to the trace between two moments.\<close>

definition effects_since :: "world \<Rightarrow> world \<Rightarrow> effect list" where
  "effects_since w w' = drop (length (trace w)) (trace w')"

subsection \<open>A concrete machine for examples\<close>

definition example_world :: "string \<Rightarrow> (nat \<Rightarrow> bool) \<Rightarrow> world" where
  "example_world pf probes =
     \<lparr> platform = pf,
       DEFAULT_FLAGS = [''--no-first-run''],
       NOISE_FLAGS = [''--mute-audio''],
       installations = [''/usr/bin/chrome''],
       probe_outcome = probes,
       tmp_dir = (\<lambda>k. ''/tmp/chrome'' @ show_nat k),
       open_fd = (\<lambda>k. 20 + k),
       child_pid = (\<lambda>k. 4000 + k),
       random_port = 9222,
       kill_error = None,
       close_listeners = [],
       sigint_listeners = 0,
       timers = [],
       trace = [] \<rparr>"

definition example_options :: "nat option \<Rightarrow> string list option \<Rightarrow> options" where
  "example_options p fs =
     \<lparr>opt_port = p, opt_chromePath = Some ''/usr/bin/chrome'', opt_chromeFlags = fs\<rparr>"

text \<open>The session a first \<open>launch()\<close> without options produces on that machine when
  the first readiness probe succeeds.\<close>

definition example_session :: "runner \<times> world" where
  "example_session =
     snd (launch (Runner (example_options None None)) (example_world ''linux'' (\<lambda>k. True)))"

section \<open>Properties\<close>

subsection \<open>Basic facts\<close>

lemma emit_fields [simp]:
  "platform (emit e w) = platform w"
  "DEFAULT_FLAGS (emit e w) = DEFAULT_FLAGS w"
  "NOISE_FLAGS (emit e w) = NOISE_FLAGS w"
  "installations (emit e w) = installations w"
  "probe_outcome (emit e w) = probe_outcome w"
  "tmp_dir (emit e w) = tmp_dir w"
  "open_fd (emit e w) = open_fd w"
  "child_pid (emit e w) = child_pid w"
  "random_port (emit e w) = random_port w"
  "kill_error (emit e w) = kill_error w"
  "close_listeners (emit e w) = close_listeners w"
  "sigint_listeners (emit e w) = sigint_listeners w"
  "timers (emit e w) = timers w"
  "trace (emit e w) = trace w @ [e]"
  by (simp_all add: emit_def)

lemma count_effects_emit [simp]:
  "count_effects P (emit e w) = (if P e then Suc (count_effects P w) else count_effects P w)"
  by (simp add: count_effects_def)

lemma total_delay_emit [simp]: "total_delay (emit e w) = total_delay w + delay_ms e"
  by (simp add: total_delay_def)

lemma show_nat_9222: "show_nat 9222 = ''9222''"
  by (simp add: show_nat.simps digit_char_def)

subsection \<open>Readiness polling: the loop\<close>

lemma poll_rejects:
  "n = 10 - retries \<Longrightarrow> retries \<le> 10 \<Longrightarrow>
   (\<forall>i\<le>n. \<not> probe_outcome w (count_effects is_probe w + i)) \<Longrightarrow>
   poll s retries w =
     (Inl ProbeRejected,
      w\<lparr>trace := trace w @ concat (replicate n [IsPortOpen (port s), Delay 500])
                   @ [IsPortOpen (port s)]\<rparr>)"
proof (induction n arbitrary: retries w)
  case 0
  then have r: "retries = 10" by simp
  from 0 have "\<not> probe_outcome w (count_effects is_probe w)" by simp
  then show ?case
    unfolding r by (simp add: poll.simps [of s 10 w] isDebugReady_def emit_def)
next
  case (Suc n)
  let ?w = "emit (Delay 500) (emit (IsPortOpen (port s)) w)"
  from Suc.prems have r: "retries < 10" "n = 10 - (retries + 1)" "retries + 1 \<le> 10" by simp_all
  from Suc.prems have f0: "\<not> probe_outcome w (count_effects is_probe w)" by auto
  have "\<forall>i\<le>n. \<not> probe_outcome ?w (count_effects is_probe ?w + i)"
  proof (intro allI impI)
    fix i assume "i \<le> n"
    then have "Suc i \<le> Suc n" by simp
    with Suc.prems(3) have "\<not> probe_outcome w (count_effects is_probe w + Suc i)" by blast
    then show "\<not> probe_outcome ?w (count_effects is_probe ?w + i)" by simp
  qed
  from Suc.IH [OF r(2) r(3) this]
  have "poll s (retries + 1) ?w =
     (Inl ProbeRejected,
      ?w\<lparr>trace := trace ?w @ concat (replicate n [IsPortOpen (port s), Delay 500])
                   @ [IsPortOpen (port s)]\<rparr>)" .
  moreover have "poll s retries w = poll s (retries + 1) ?w"
    using f0 r(1) by (simp add: poll.simps [of s retries w] isDebugReady_def)
  ultimately show ?case
    by (simp add: emit_def)
qed

lemma poll_resolves:
  "retries + k \<le> 10 \<Longrightarrow>
   (\<forall>i<k. \<not> probe_outcome w (count_effects is_probe w + i)) \<Longrightarrow>
   probe_outcome w (count_effects is_probe w + k) \<Longrightarrow>
   poll s retries w =
     (Inr (),
      w\<lparr>trace := trace w @ concat (replicate k [IsPortOpen (port s), Delay 500])
                   @ [IsPortOpen (port s), Logger Info ''chrome already now'']\<rparr>)"
proof (induction k arbitrary: retries w)
  case 0
  then show ?case
    by (simp add: poll.simps [of s retries w] isDebugReady_def emit_def)
next
  case (Suc k)
  let ?w = "emit (Delay 500) (emit (IsPortOpen (port s)) w)"
  from Suc.prems have r: "retries < 10" "retries + 1 + k \<le> 10" by simp_all
  from Suc.prems have f0: "\<not> probe_outcome w (count_effects is_probe w)" by auto
  have a: "\<forall>i<k. \<not> probe_outcome ?w (count_effects is_probe ?w + i)"
    using Suc.prems(2) by auto
  have b: "probe_outcome ?w (count_effects is_probe ?w + k)"
    using Suc.prems(3) by simp
  have "poll s retries w = poll s (retries + 1) ?w"
    using f0 r(1) by (simp add: poll.simps [of s retries w] isDebugReady_def)
  with Suc.IH [OF r(2) a b] show ?case
    by (simp add: emit_def)
qed

text \<open>Whatever the probes answer, polling only appends probes, log lines and sleeps to
  the trace and leaves the rest of the surroundings alone.\<close>

lemma poll_appends:
  "\<exists>ext. snd (poll s retries w) = w\<lparr>trace := trace w @ ext\<rparr> \<and> list_all is_wait_effect ext"
proof (induction s retries w rule: poll.induct)
  case (1 s retries w)
  let ?w1 = "emit (IsPortOpen (port s)) w"
  show ?case
  proof (cases "probe_outcome w (count_effects is_probe w)")
    case True
    then have "snd (poll s retries w) =
        w\<lparr>trace := trace w @ [IsPortOpen (port s), Logger Info ''chrome already now'']\<rparr>"
      by (simp add: poll.simps [of s retries w] isDebugReady_def emit_def)
    then show ?thesis
      by (intro exI [of _ "[IsPortOpen (port s), Logger Info ''chrome already now'']"]) simp
  next
    case False
    show ?thesis
    proof (cases "retries + 1 > 10")
      case True
      with False have "snd (poll s retries w) = w\<lparr>trace := trace w @ [IsPortOpen (port s)]\<rparr>"
        by (simp add: poll.simps [of s retries w] isDebugReady_def emit_def)
      then show ?thesis
        by (intro exI [of _ "[IsPortOpen (port s)]"]) simp
    next
      case r: False
      have eq: "isDebugReady s w = (False, ?w1)"
        using False by (simp add: isDebugReady_def)
      from "1.IH" [OF eq [symmetric] _ r]
      obtain ext where ext: "snd (poll s (retries + 1) (emit (Delay 500) ?w1)) =
          (emit (Delay 500) ?w1)\<lparr>trace := trace (emit (Delay 500) ?w1) @ ext\<rparr>"
          "list_all is_wait_effect ext"
        by auto
      have "poll s retries w = poll s (retries + 1) (emit (Delay 500) ?w1)"
        using False r by (simp add: poll.simps [of s retries w] isDebugReady_def)
      with ext have "snd (poll s retries w) =
          w\<lparr>trace := trace w @ ([IsPortOpen (port s), Delay 500] @ ext)\<rparr>"
        by (simp add: emit_def)
      moreover have "list_all is_wait_effect ([IsPortOpen (port s), Delay 500] @ ext)"
        using ext(2) by simp
      ultimately show ?thesis by blast
    qed
  qed
qed

lemma poll_count:
  assumes "\<And>e. is_wait_effect e \<Longrightarrow> \<not> P e"
  shows "count_effects P (snd (poll s retries w)) = count_effects P w"
proof -
  obtain ext where ext: "snd (poll s retries w) = w\<lparr>trace := trace w @ ext\<rparr>"
      "list_all is_wait_effect ext"
    using poll_appends by blast
  have "filter P ext = []"
    using ext(2) assms by (induction ext) auto
  with ext(1) show ?thesis by (simp add: count_effects_def)
qed

lemma poll_fields [simp]:
  "platform (snd (poll s retries w)) = platform w"
  "DEFAULT_FLAGS (snd (poll s retries w)) = DEFAULT_FLAGS w"
  "NOISE_FLAGS (snd (poll s retries w)) = NOISE_FLAGS w"
  "installations (snd (poll s retries w)) = installations w"
  "probe_outcome (snd (poll s retries w)) = probe_outcome w"
  "tmp_dir (snd (poll s retries w)) = tmp_dir w"
  "open_fd (snd (poll s retries w)) = open_fd w"
  "child_pid (snd (poll s retries w)) = child_pid w"
  "random_port (snd (poll s retries w)) = random_port w"
  "kill_error (snd (poll s retries w)) = kill_error w"
  "close_listeners (snd (poll s retries w)) = close_listeners w"
  "sigint_listeners (snd (poll s retries w)) = sigint_listeners w"
  "timers (snd (poll s retries w)) = timers w"
  using poll_appends [of s retries w] by auto

text \<open>The delays of a poll: one sleep of 500 ms between two consecutive probes.\<close>

lemma poll_delay:
  "retries \<le> 10 \<Longrightarrow>
   total_delay (snd (poll s retries w)) + 500 =
     total_delay w + 500 * (count_effects is_probe (snd (poll s retries w)) - count_effects is_probe w)
   \<and> count_effects is_probe w < count_effects is_probe (snd (poll s retries w))
   \<and> count_effects is_probe (snd (poll s retries w)) + retries \<le> count_effects is_probe w + 11"
proof (induction s retries w rule: poll.induct)
  case (1 s retries w)
  let ?w1 = "emit (IsPortOpen (port s)) w"
  show ?case
  proof (cases "probe_outcome w (count_effects is_probe w)")
    case True
    then have "snd (poll s retries w) = emit (Logger Info ''chrome already now'') ?w1"
      by (simp add: poll.simps [of s retries w] isDebugReady_def)
    then show ?thesis using "1.prems" by simp
  next
    case False
    show ?thesis
    proof (cases "retries + 1 > 10")
      case True
      with False have "snd (poll s retries w) = ?w1"
        by (simp add: poll.simps [of s retries w] isDebugReady_def)
      then show ?thesis using True "1.prems" by simp
    next
      case r: False
      have eq: "isDebugReady s w = (False, ?w1)"
        using False by (simp add: isDebugReady_def)
      from r have r': "retries + 1 \<le> 10" by simp
      note IH = "1.IH" [OF eq [symmetric] _ r r', simplified]
      have "poll s retries w = poll s (retries + 1) (emit (Delay 500) ?w1)"
        using False r by (simp add: poll.simps [of s retries w] isDebugReady_def)
      with IH show ?thesis by auto
    qed
  qed
qed

subsection \<open>The flag list\<close>

text \<open>
  Claim C4, as the code has it. The flag list is the baseline flags, the port flag, the
  user-data-dir flag, \<open>--disable-setuid-sandbox\<close> exactly on platform \<open>linux\<close>, the
  caller's flags and last \<open>about:blank\<close>. It therefore always ends with \<open>about:blank\<close>
  and always holds the port flag and the user-data-dir flag, with the caller's flags
  after the generated ones. Whether \<open>--disable-setuid-sandbox\<close> occurs in the list is
  equivalent to the platform being \<open>linux\<close> provided neither the baseline flags nor the
  caller's flags hold that flag themselves.
\<close>

theorem flags_layout:
  "flags s w =
     (DEFAULT_FLAGS w
        @ [''--remote-debugging-port='' @ template_nat (port s),
           ''--user-data-dir='' @ template_str (chromeDataDir s)]
        @ (if platform w = ''linux'' then [''--disable-setuid-sandbox''] else []))
     @ chromeFlags s @ [''about:blank'']
   \<and> last (flags s w) = ''about:blank''
   \<and> ''--remote-debugging-port='' @ template_nat (port s) \<in> set (flags s w)
   \<and> ''--user-data-dir='' @ template_str (chromeDataDir s) \<in> set (flags s w)
   \<and> (''--disable-setuid-sandbox'' \<notin> set (DEFAULT_FLAGS w) \<union> set (chromeFlags s) \<longrightarrow>
        (''--disable-setuid-sandbox'' \<in> set (flags s w) \<longleftrightarrow> platform w = ''linux''))"
  by (simp add: flags_def Let_def)

theorem flags_layout_witness:
  "''--disable-setuid-sandbox'' \<notin> set (DEFAULT_FLAGS (example_world ''linux'' (\<lambda>k. True)))
      \<union> set (chromeFlags (Runner (example_options (Some 9222) (Some [''--foo'']))))
   \<and> flags (Runner (example_options (Some 9222) (Some [''--foo''])))
        (example_world ''linux'' (\<lambda>k. True)) =
      [''--no-first-run'', ''--remote-debugging-port=9222'', ''--user-data-dir=undefined'',
       ''--disable-setuid-sandbox'', ''--foo'', ''about:blank'']
   \<and> ''--disable-setuid-sandbox'' \<in> set (flags (Runner (example_options (Some 9222) (Some [''--foo''])))
        (example_world ''linux'' (\<lambda>k. True)))"
  using flags_layout [of "Runner (example_options (Some 9222) (Some [''--foo'']))"
      "example_world ''linux'' (\<lambda>k. True)"]
  by (simp add: example_world_def example_options_def Runner_def template_nat_def
      template_str_def show_nat_9222)

text \<open>On \<open>darwin\<close>, a caller who passes \<open>--disable-setuid-sandbox\<close> gets it in the
  list: the equivalence of C4 does not hold for every caller's flags.\<close>

theorem flags_sandbox_counterexample:
  "''--disable-setuid-sandbox'' \<in> set (flags
        (Runner (example_options (Some 9222) (Some [''--disable-setuid-sandbox''])))
        (example_world ''darwin'' (\<lambda>k. True)))
   \<and> platform (example_world ''darwin'' (\<lambda>k. True)) \<noteq> ''linux''"
  by (simp add: flags_def example_world_def example_options_def Runner_def)

subsection \<open>Counting effects\<close>

lemma count_effects_update [simp]:
  "count_effects P (w\<lparr>sigint_listeners := n\<rparr>) = count_effects P w"
  "count_effects P (w\<lparr>close_listeners := cl\<rparr>) = count_effects P w"
  "count_effects P (w\<lparr>timers := ts\<rparr>) = count_effects P w"
  by (simp_all add: count_effects_def)

lemma wait_effect_foreign:
  "is_wait_effect e \<Longrightarrow> \<not> is_spawn e"
  "is_wait_effect e \<Longrightarrow> \<not> is_sigint_reg e"
  "is_wait_effect e \<Longrightarrow> \<not> is_watcher_reg e"
  "is_wait_effect e \<Longrightarrow> \<not> is_mktmp e"
  "is_wait_effect e \<Longrightarrow> \<not> is_open e"
  "is_wait_effect e \<Longrightarrow> \<not> is_fs_write e"
  "is_wait_effect e \<Longrightarrow> \<not> is_teardown e"
  "is_wait_effect e \<Longrightarrow> \<not> is_settimeout e"
  by (cases e; simp)+

lemmas poll_counts [simp] =
  poll_count [of is_spawn, OF wait_effect_foreign(1)]
  poll_count [of is_sigint_reg, OF wait_effect_foreign(2)]
  poll_count [of is_watcher_reg, OF wait_effect_foreign(3)]
  poll_count [of is_mktmp, OF wait_effect_foreign(4)]
  poll_count [of is_open, OF wait_effect_foreign(5)]
  poll_count [of is_fs_write, OF wait_effect_foreign(6)]
  poll_count [of is_teardown, OF wait_effect_foreign(7)]
  poll_count [of is_settimeout, OF wait_effect_foreign(8)]

subsection \<open>What \<open>spawn\<close> touches\<close>

lemmas spawn_unfold =
  spawn_def waitUntilReady_def handleSIGINT_def handleChromeUnexpectedExit_def
  Let_def case_prod_unfold sum.case_eq_if

lemma spawn_count:
  assumes wait: "\<And>e. is_wait_effect e \<Longrightarrow> \<not> P e"
    and other: "\<not> P GetRandomPort" "\<And>a b c d e. \<not> P (SpawnChild a b c d e)" "\<not> P OnSigint"
      "\<And>c l. \<not> P (OnClose c l)" "\<And>f x. \<not> P (WriteFileSync f x)"
  shows "count_effects P (snd (snd (spawn s w))) = count_effects P w"
proof -
  have log: "\<And>l m. \<not> P (Logger l m)" using wait by simp
  show ?thesis
    by (simp add: spawn_unfold log other poll_count [OF wait] split: option.splits)
qed

lemma spawn_tracked:
  "chromeProcess s = Some c \<Longrightarrow>
   spawn s w = (Inr (Some (child_pid w c)), s,
     emit (Logger Info (''chrome already running with pid '' @ show_nat (child_pid w c) @ ''.'')) w)"
  by (simp add: spawn_def)

lemma spawn_keeps [simp]:
  "restartUnexpectedChrome (fst (snd (spawn s w))) = restartUnexpectedChrome s"
  "tmpDirandPidFileReady (fst (snd (spawn s w))) = tmpDirandPidFileReady s"
  "chromePath (fst (snd (spawn s w))) = chromePath s"
  "chromeFlags (fst (snd (spawn s w))) = chromeFlags s"
  "chromeDataDir (fst (snd (spawn s w))) = chromeDataDir s"
  "chromeOutFile (fst (snd (spawn s w))) = chromeOutFile s"
  "chromeErrorFile (fst (snd (spawn s w))) = chromeErrorFile s"
  "pidFile (fst (snd (spawn s w))) = pidFile s"
  by (simp_all add: spawn_unfold split: option.splits)

lemma spawn_world_keeps [simp]:
  "timers (snd (snd (spawn s w))) = timers w"
  "platform (snd (snd (spawn s w))) = platform w"
  "probe_outcome (snd (snd (spawn s w))) = probe_outcome w"
  "DEFAULT_FLAGS (snd (snd (spawn s w))) = DEFAULT_FLAGS w"
  "installations (snd (snd (spawn s w))) = installations w"
  by (simp_all add: spawn_unfold split: option.splits)

text \<open>A call of \<open>spawn\<close> that starts a child registers one interrupt handler and one
  exit watcher; a call that finds a tracked child registers nothing.\<close>

lemma spawn_registers:
  "count_effects is_spawn (snd (snd (spawn s w))) =
     count_effects is_spawn w + (if chromeProcess s = None then 1 else 0)"
  "count_effects is_sigint_reg (snd (snd (spawn s w))) =
     count_effects is_sigint_reg w + (if chromeProcess s = None then 1 else 0)"
  "count_effects is_watcher_reg (snd (snd (spawn s w))) =
     count_effects is_watcher_reg w + (if chromeProcess s = None then 1 else 0)"
  "sigint_listeners (snd (snd (spawn s w))) =
     sigint_listeners w + (if chromeProcess s = None then 1 else 0)"
  by (simp_all add: spawn_unfold split: option.splits)


subsection \<open>What \<open>prepare\<close> and \<open>launch\<close> touch\<close>

lemma prepare_result:
  "fst (prepare s w) =
     (if platform w \<in> set SUPPORTED_PLATFORMS then Inr ()
      else Inl (UnsupportedPlatform (platform w)))"
  by (simp add: prepare_def Let_def)

lemma prepare_keeps [simp]:
  "restartUnexpectedChrome (fst (snd (prepare s w))) = restartUnexpectedChrome s"
  "chromeFlags (fst (snd (prepare s w))) = chromeFlags s"
  "chromeProcess (fst (snd (prepare s w))) = chromeProcess s"
  "chromePath (fst (snd (prepare s w))) = chromePath s"
  "port (fst (snd (prepare s w))) = port s"
  by (simp_all add: prepare_def Let_def)

lemma prepare_world_keeps [simp]:
  "timers (snd (snd (prepare s w))) = timers w"
  "platform (snd (snd (prepare s w))) = platform w"
  "sigint_listeners (snd (snd (prepare s w))) = sigint_listeners w"
  "close_listeners (snd (snd (prepare s w))) = close_listeners w"
  "probe_outcome (snd (snd (prepare s w))) = probe_outcome w"
  "installations (snd (snd (prepare s w))) = installations w"
  by (simp_all add: prepare_def Let_def)

lemma prepare_count:
  assumes "\<And>l m. \<not> P (Logger l m)" "\<And>d. \<not> P (MakeTmpDir d)" "\<And>f x. \<not> P (OpenSync f x)"
  shows "count_effects P (snd (snd (prepare s w))) = count_effects P w"
  using assms by (simp add: prepare_def Let_def)

lemmas launch_new_unfold = launch_new_def Let_def case_prod_unfold sum.case_eq_if

lemmas launch_unfold = launch_def isDebugReady_def Let_def case_prod_unfold bool.case_eq_if

lemma launch_new_keeps [simp]:
  "restartUnexpectedChrome (fst (snd (launch_new s w))) = restartUnexpectedChrome s"
  "chromeFlags (fst (snd (launch_new s w))) = chromeFlags s"
  by (simp_all add: launch_new_unfold split: list.splits)

lemma launch_new_world_keeps [simp]:
  "timers (snd (snd (launch_new s w))) = timers w"
  "platform (snd (snd (launch_new s w))) = platform w"
  by (simp_all add: launch_new_unfold split: list.splits)

lemma launch_keeps [simp]:
  "restartUnexpectedChrome (fst (snd (launch s w))) = restartUnexpectedChrome s"
  "chromeFlags (fst (snd (launch s w))) = chromeFlags s"
  by (simp_all add: launch_unfold)

lemma launch_world_keeps [simp]:
  "timers (snd (snd (launch s w))) = timers w"
  "platform (snd (snd (launch s w))) = platform w"
  by (simp_all add: launch_unfold)

lemma launch_new_count:
  assumes wait: "\<And>e. is_wait_effect e \<Longrightarrow> \<not> P e"
    and other: "\<not> P GetRandomPort" "\<And>a b c d e. \<not> P (SpawnChild a b c d e)" "\<not> P OnSigint"
      "\<And>c l. \<not> P (OnClose c l)" "\<And>f x. \<not> P (WriteFileSync f x)"
    and more: "\<And>d. \<not> P (MakeTmpDir d)" "\<And>f x. \<not> P (OpenSync f x)" "\<And>p. \<not> P (ChromeFinder p)"
  shows "count_effects P (snd (snd (launch_new s w))) = count_effects P w"
proof -
  have log: "\<And>l m. \<not> P (Logger l m)" using wait by simp
  show ?thesis
    by (simp add: launch_new_unfold more spawn_count [of P, OF wait other]
        prepare_count [of P, OF log more(1,2)] split: list.splits)
qed

lemma launch_count:
  assumes wait: "\<And>e. is_wait_effect e \<Longrightarrow> \<not> P e"
    and other: "\<not> P GetRandomPort" "\<And>a b c d e. \<not> P (SpawnChild a b c d e)" "\<not> P OnSigint"
      "\<And>c l. \<not> P (OnClose c l)" "\<And>f x. \<not> P (WriteFileSync f x)"
    and more: "\<And>d. \<not> P (MakeTmpDir d)" "\<And>f x. \<not> P (OpenSync f x)" "\<And>p. \<not> P (ChromeFinder p)"
  shows "count_effects P (snd (snd (launch s w))) = count_effects P w"
proof -
  have log: "\<And>l m. \<not> P (Logger l m)" "\<And>p. \<not> P (IsPortOpen p)" using wait by simp_all
  show ?thesis
    by (simp add: launch_unfold log launch_new_count [of P, OF wait other more])
qed

text \<open>Once the guard is set, \<open>launch\<close> neither creates a directory nor opens a file.\<close>

lemma launch_new_ready_count:
  assumes "tmpDirandPidFileReady s"
  shows "count_effects is_mktmp (snd (snd (launch_new s w))) = count_effects is_mktmp w"
    and "count_effects is_open (snd (snd (launch_new s w))) = count_effects is_open w"
  using assms
  by (simp_all add: launch_new_unfold spawn_count [of is_mktmp, OF wait_effect_foreign(4)]
      spawn_count [of is_open, OF wait_effect_foreign(5)] split: list.splits)

lemma launch_ready_count:
  assumes "tmpDirandPidFileReady s"
  shows "count_effects is_mktmp (snd (snd (launch s w))) = count_effects is_mktmp w"
    and "count_effects is_open (snd (snd (launch s w))) = count_effects is_open w"
  using assms by (simp_all add: launch_unfold launch_new_ready_count)

lemma launch_new_ready_keeps:
  assumes "tmpDirandPidFileReady s"
  shows "tmpDirandPidFileReady (fst (snd (launch_new s w)))"
    and "chromeDataDir (fst (snd (launch_new s w))) = chromeDataDir s"
    and "pidFile (fst (snd (launch_new s w))) = pidFile s"
  using assms by (simp_all add: launch_new_unfold split: list.splits)

lemma launch_ready_keeps:
  assumes "tmpDirandPidFileReady s"
  shows "tmpDirandPidFileReady (fst (snd (launch s w)))"
    and "chromeDataDir (fst (snd (launch s w))) = chromeDataDir s"
    and "pidFile (fst (snd (launch s w))) = pidFile s"
  using assms by (simp_all add: launch_unfold launch_new_ready_keeps)

lemma launch_new_registers:
  "count_effects is_sigint_reg (snd (snd (launch_new s w))) + count_effects is_spawn w =
     count_effects is_sigint_reg w + count_effects is_spawn (snd (snd (launch_new s w)))"
  "count_effects is_watcher_reg (snd (snd (launch_new s w))) + count_effects is_spawn w =
     count_effects is_watcher_reg w + count_effects is_spawn (snd (snd (launch_new s w)))"
  "sigint_listeners (snd (snd (launch_new s w))) + count_effects is_spawn w =
     sigint_listeners w + count_effects is_spawn (snd (snd (launch_new s w)))"
  by (simp_all add: launch_new_unfold spawn_registers prepare_count split: list.splits)

lemma launch_registers:
  "count_effects is_sigint_reg (snd (snd (launch s w))) + count_effects is_spawn w =
     count_effects is_sigint_reg w + count_effects is_spawn (snd (snd (launch s w)))"
  "count_effects is_watcher_reg (snd (snd (launch s w))) + count_effects is_spawn w =
     count_effects is_watcher_reg w + count_effects is_spawn (snd (snd (launch s w)))"
  "sigint_listeners (snd (snd (launch s w))) + count_effects is_spawn w =
     sigint_listeners w + count_effects is_spawn (snd (snd (launch s w)))"
  using launch_new_registers [of s "emit (Logger Warn (''no chrome found on port ''
      @ template_nat (port s) @ '', launching a new Chrome.'')) (emit (IsPortOpen (port s)) w)"]
    launch_new_registers [of s w]
  by (simp_all add: launch_unfold)

subsection \<open>What \<open>kill\<close>, \<open>destroyTmp\<close> and the listeners touch\<close>

lemma kill_keeps [simp]:
  "\<not> restartUnexpectedChrome (fst (snd (kill s w)))"
  "chromeProcess (fst (snd (kill s w))) = None"
  "port (fst (snd (kill s w))) = port s"
  "chromePath (fst (snd (kill s w))) = chromePath s"
  "chromeFlags (fst (snd (kill s w))) = chromeFlags s"
  "tmpDirandPidFileReady (fst (snd (kill s w))) = tmpDirandPidFileReady s"
  "chromeDataDir (fst (snd (kill s w))) = chromeDataDir s"
  "chromeOutFile (fst (snd (kill s w))) = chromeOutFile s"
  "chromeErrorFile (fst (snd (kill s w))) = chromeErrorFile s"
  "pidFile (fst (snd (kill s w))) = pidFile s"
  by (simp_all add: kill_def Let_def split: option.splits)

lemma kill_count:
  assumes "\<And>l m. \<not> P (Logger l m)" "\<And>c. \<not> P (OnClose c KillWaiter)" "\<And>p. \<not> P (Taskkill p)"
    "\<And>p. \<not> P (KillGroup p)" "\<not> P KillResolved"
  shows "count_effects P (snd (snd (kill s w))) = count_effects P w"
  using assms by (simp add: kill_def Let_def split: option.splits)

lemma kill_world_keeps [simp]:
  "timers (snd (snd (kill s w))) = timers w"
  "sigint_listeners (snd (snd (kill s w))) = sigint_listeners w"
  "platform (snd (snd (kill s w))) = platform w"
  by (simp_all add: kill_def Let_def split: option.splits)

lemma destroyTmp_keeps [simp]:
  "restartUnexpectedChrome (fst (destroyTmp s w)) = restartUnexpectedChrome s"
  "chromeProcess (fst (destroyTmp s w)) = chromeProcess s"
  "port (fst (destroyTmp s w)) = port s"
  "chromePath (fst (destroyTmp s w)) = chromePath s"
  "chromeFlags (fst (destroyTmp s w)) = chromeFlags s"
  "tmpDirandPidFileReady (fst (destroyTmp s w)) = tmpDirandPidFileReady s"
  "chromeDataDir (fst (destroyTmp s w)) = chromeDataDir s"
  "pidFile (fst (destroyTmp s w)) = pidFile s"
  by (simp_all add: destroyTmp_def Let_def case_prod_unfold split: option.splits)

lemma destroyTmp_world_keeps [simp]:
  "timers (snd (destroyTmp s w)) = timers w"
  "sigint_listeners (snd (destroyTmp s w)) = sigint_listeners w"
  "close_listeners (snd (destroyTmp s w)) = close_listeners w"
  "platform (snd (destroyTmp s w)) = platform w"
  by (simp_all add: destroyTmp_def Let_def case_prod_unfold split: option.splits)

lemma destroyTmp_count:
  assumes "\<And>f. \<not> P (CloseSync f)" "\<And>d. \<not> P (RimrafSync d)"
  shows "count_effects P (snd (destroyTmp s w)) = count_effects P w"
  using assms by (simp add: destroyTmp_def Let_def case_prod_unfold split: option.splits)

lemma run_listener_keeps [simp]:
  "restartUnexpectedChrome (fst (run_listener l sw)) = restartUnexpectedChrome (fst sw)"
  "port (fst (run_listener l sw)) = port (fst sw)"
  "chromePath (fst (run_listener l sw)) = chromePath (fst sw)"
  "chromeFlags (fst (run_listener l sw)) = chromeFlags (fst sw)"
  "tmpDirandPidFileReady (fst (run_listener l sw)) = tmpDirandPidFileReady (fst sw)"
  "chromeDataDir (fst (run_listener l sw)) = chromeDataDir (fst sw)"
  "pidFile (fst (run_listener l sw)) = pidFile (fst sw)"
  "sigint_listeners (snd (run_listener l sw)) = sigint_listeners (snd sw)"
  "platform (snd (run_listener l sw)) = platform (snd sw)"
  by (cases l; cases sw; simp add: case_prod_unfold)+

lemma run_listener_count:
  assumes "\<And>l m. \<not> P (Logger l m)" "\<And>f. \<not> P (CloseSync f)" "\<And>d. \<not> P (RimrafSync d)"
    "\<not> P KillResolved" "\<And>t d. \<not> P (SetTimeout t d)"
  shows "count_effects P (snd (run_listener l sw)) = count_effects P (snd sw)"
  using assms by (cases l; cases sw; simp add: case_prod_unfold destroyTmp_count)

text \<open>Once shutdown was requested, a listener schedules nothing.\<close>

lemma run_listener_shutdown:
  assumes "\<not> restartUnexpectedChrome (fst sw)"
  shows "count_effects is_settimeout (snd (run_listener l sw)) = count_effects is_settimeout (snd sw)"
    and "timers (snd (run_listener l sw)) = timers (snd sw)"
    and "chromeProcess (fst (run_listener l sw)) = chromeProcess (fst sw)"
  using assms by (cases l; cases sw; simp add: case_prod_unfold destroyTmp_count)+

lemma fold_listener_keeps [simp]:
  "restartUnexpectedChrome (fst (fold run_listener ls sw)) = restartUnexpectedChrome (fst sw)"
  "port (fst (fold run_listener ls sw)) = port (fst sw)"
  "chromePath (fst (fold run_listener ls sw)) = chromePath (fst sw)"
  "chromeFlags (fst (fold run_listener ls sw)) = chromeFlags (fst sw)"
  "tmpDirandPidFileReady (fst (fold run_listener ls sw)) = tmpDirandPidFileReady (fst sw)"
  "chromeDataDir (fst (fold run_listener ls sw)) = chromeDataDir (fst sw)"
  "pidFile (fst (fold run_listener ls sw)) = pidFile (fst sw)"
  "sigint_listeners (snd (fold run_listener ls sw)) = sigint_listeners (snd sw)"
  "platform (snd (fold run_listener ls sw)) = platform (snd sw)"
  by (induction ls arbitrary: sw; simp)+

lemma fold_listener_count:
  assumes "\<And>l m. \<not> P (Logger l m)" "\<And>f. \<not> P (CloseSync f)" "\<And>d. \<not> P (RimrafSync d)"
    "\<not> P KillResolved" "\<And>t d. \<not> P (SetTimeout t d)"
  shows "count_effects P (snd (fold run_listener ls sw)) = count_effects P (snd sw)"
  by (induction ls arbitrary: sw) (simp_all add: run_listener_count [of P, OF assms])

lemma fold_listener_shutdown:
  assumes "\<not> restartUnexpectedChrome (fst sw)"
  shows "count_effects is_settimeout (snd (fold run_listener ls sw)) = count_effects is_settimeout (snd sw)
    \<and> timers (snd (fold run_listener ls sw)) = timers (snd sw)
    \<and> chromeProcess (fst (fold run_listener ls sw)) = chromeProcess (fst sw)"
  using assms by (induction ls arbitrary: sw) (simp_all add: run_listener_shutdown)

subsection \<open>Events\<close>

lemma on_close_keeps [simp]:
  "restartUnexpectedChrome (fst (on_close c s w)) = restartUnexpectedChrome s"
  "port (fst (on_close c s w)) = port s"
  "chromePath (fst (on_close c s w)) = chromePath s"
  "chromeFlags (fst (on_close c s w)) = chromeFlags s"
  "tmpDirandPidFileReady (fst (on_close c s w)) = tmpDirandPidFileReady s"
  "chromeDataDir (fst (on_close c s w)) = chromeDataDir s"
  "pidFile (fst (on_close c s w)) = pidFile s"
  "sigint_listeners (snd (on_close c s w)) = sigint_listeners w"
  "platform (snd (on_close c s w)) = platform w"
  by (simp_all add: on_close_def)

lemma on_close_count:
  assumes "\<And>l m. \<not> P (Logger l m)" "\<And>f. \<not> P (CloseSync f)" "\<And>d. \<not> P (RimrafSync d)"
    "\<not> P KillResolved" "\<And>t d. \<not> P (SetTimeout t d)"
  shows "count_effects P (snd (on_close c s w)) = count_effects P w"
  by (simp add: on_close_def fold_listener_count [of P, OF assms])

lemma on_close_shutdown:
  assumes "\<not> restartUnexpectedChrome s"
  shows "count_effects is_settimeout (snd (on_close c s w)) = count_effects is_settimeout w"
    and "timers (snd (on_close c s w)) = timers w"
    and "chromeProcess (fst (on_close c s w)) = chromeProcess s"
  using assms
    fold_listener_shutdown [of "(s, w\<lparr>close_listeners := filter (\<lambda>cl. fst cl \<noteq> c) (close_listeners w)\<rparr>)"
      "map snd (filter (\<lambda>cl. fst cl = c) (close_listeners w))"]
  by (simp_all add: on_close_def)

lemma on_timeout_keeps [simp]:
  "restartUnexpectedChrome (fst (on_timeout s w)) = restartUnexpectedChrome s"
  by (simp add: on_timeout_def case_prod_unfold split: list.splits task.splits)

lemma on_timeout_count:
  assumes wait: "\<And>e. is_wait_effect e \<Longrightarrow> \<not> P e"
    and other: "\<not> P GetRandomPort" "\<And>a b c d e. \<not> P (SpawnChild a b c d e)" "\<not> P OnSigint"
      "\<And>c l. \<not> P (OnClose c l)" "\<And>f x. \<not> P (WriteFileSync f x)"
  shows "count_effects P (snd (on_timeout s w)) = count_effects P w"
  by (simp add: on_timeout_def case_prod_unfold spawn_count [of P, OF wait other]
      split: list.splits task.splits)

lemma on_timeout_registers:
  "count_effects is_sigint_reg (snd (on_timeout s w)) + count_effects is_spawn w =
     count_effects is_sigint_reg w + count_effects is_spawn (snd (on_timeout s w))"
  "count_effects is_watcher_reg (snd (on_timeout s w)) + count_effects is_spawn w =
     count_effects is_watcher_reg w + count_effects is_spawn (snd (on_timeout s w))"
  "sigint_listeners (snd (on_timeout s w)) + count_effects is_spawn w =
     sigint_listeners w + count_effects is_spawn (snd (on_timeout s w))"
  by (simp_all add: on_timeout_def case_prod_unfold spawn_registers split: list.splits task.splits)

text \<open>No step ever sets \<open>restartUnexpectedChrome\<close> back to true.\<close>

lemma step_shutdown_stays:
  "\<not> restartUnexpectedChrome (fst sw) \<Longrightarrow> \<not> restartUnexpectedChrome (fst (step e sw))"
  by (cases e; cases sw) simp_all

lemma step_shutdown_schedules_nothing:
  assumes "\<not> restartUnexpectedChrome (fst sw)"
  shows "count_effects is_settimeout (snd (step e sw)) = count_effects is_settimeout (snd sw)"
proof (cases sw)
  case (Pair s w)
  with assms have off: "\<not> restartUnexpectedChrome s" by simp
  show ?thesis
  proof (cases e)
    case CallLaunch
    then show ?thesis
      using launch_count [of is_settimeout s w, OF wait_effect_foreign(8)] Pair by simp
  next
    case CallSpawn
    then show ?thesis
      using spawn_count [of is_settimeout s w, OF wait_effect_foreign(8)] Pair by simp
  next
    case CallKill
    then show ?thesis
      using kill_count [of is_settimeout s w] Pair by simp
  next
    case (ChildClose c)
    then show ?thesis
      using on_close_shutdown(1) [OF off] Pair by simp
  next
    case TimerExpires
    then show ?thesis
      using on_timeout_count [of is_settimeout s w, OF wait_effect_foreign(8)] Pair by simp
  qed
qed

lemma run_shutdown:
  "\<not> restartUnexpectedChrome (fst sw) \<Longrightarrow>
   \<not> restartUnexpectedChrome (fst (run evs sw))
   \<and> count_effects is_settimeout (snd (run evs sw)) = count_effects is_settimeout (snd sw)"
proof (induction evs arbitrary: sw)
  case Nil
  then show ?case by (simp add: run_def)
next
  case (Cons e evs)
  from Cons.prems have off: "\<not> restartUnexpectedChrome (fst (step e sw))"
    by (rule step_shutdown_stays)
  from Cons.IH [OF off] step_shutdown_schedules_nothing [OF Cons.prems, of e]
  show ?case by (simp add: run_def)
qed

text \<open>Every step keeps the number of interrupt handlers, of exit-watcher registrations and
  of children started in step with each other.\<close>

lemma step_registers:
  "count_effects is_sigint_reg (snd (step e sw)) + count_effects is_spawn (snd sw) =
     count_effects is_sigint_reg (snd sw) + count_effects is_spawn (snd (step e sw))
   \<and> count_effects is_watcher_reg (snd (step e sw)) + count_effects is_spawn (snd sw) =
     count_effects is_watcher_reg (snd sw) + count_effects is_spawn (snd (step e sw))
   \<and> sigint_listeners (snd (step e sw)) + count_effects is_spawn (snd sw) =
     sigint_listeners (snd sw) + count_effects is_spawn (snd (step e sw))"
proof (cases sw)
  case (Pair s w)
  show ?thesis
  proof (cases e)
    case CallLaunch
    then show ?thesis using launch_registers [of s w] Pair by simp
  next
    case CallSpawn
    then show ?thesis using spawn_registers [of s w] Pair by simp
  next
    case CallKill
    then show ?thesis
      using kill_count [of is_sigint_reg s w] kill_count [of is_watcher_reg s w]
        kill_count [of is_spawn s w] Pair by simp
  next
    case (ChildClose c)
    then show ?thesis
      using on_close_count [of is_sigint_reg c s w] on_close_count [of is_watcher_reg c s w]
        on_close_count [of is_spawn c s w] Pair by simp
  next
    case TimerExpires
    then show ?thesis using on_timeout_registers [of s w] Pair by simp
  qed
qed

lemma run_registers:
  "count_effects is_sigint_reg (snd (run evs sw)) + count_effects is_spawn (snd sw) =
     count_effects is_sigint_reg (snd sw) + count_effects is_spawn (snd (run evs sw))
   \<and> count_effects is_watcher_reg (snd (run evs sw)) + count_effects is_spawn (snd sw) =
     count_effects is_watcher_reg (snd sw) + count_effects is_spawn (snd (run evs sw))
   \<and> sigint_listeners (snd (run evs sw)) + count_effects is_spawn (snd sw) =
     sigint_listeners (snd sw) + count_effects is_spawn (snd (run evs sw))"
proof (induction evs arbitrary: sw)
  case Nil
  then show ?case by (simp add: run_def)
next
  case (Cons e evs)
  from Cons.IH [of "step e sw"] step_registers [of e sw]
  show ?case by (simp add: run_def)
qed

subsection \<open>The example session\<close>

lemmas eval_defs =
  launch_def launch_new_def prepare_def spawn_def waitUntilReady_def isDebugReady_def
  handleSIGINT_def handleChromeUnexpectedExit_def Let_def Runner_def example_options_def
  example_world_def truthy_nat_def truthy_str_def SUPPORTED_PLATFORMS_def emit_def
  count_effects_def flags_def template_nat_def template_str_def

lemma show_nat_small: "show_nat 0 = ''0''" "show_nat 4000 = ''4000''" "show_nat 4001 = ''4001''"
  by (simp_all add: show_nat.simps digit_char_def)

lemma example_session_eq:
  "example_session =
     (\<lparr> port = Some 9222, chromePath = Some ''/usr/bin/chrome'', chromeFlags = [],
        tmpDirandPidFileReady = True, chromeProcess = Some 0,
        chromeDataDir = Some ''/tmp/chrome0'', chromeOutFile = Some 20,
        chromeErrorFile = Some 21, pidFile = Some 22, restartUnexpectedChrome = True \<rparr>,
      \<lparr> platform = ''linux'',
        DEFAULT_FLAGS = [''--no-first-run''],
        NOISE_FLAGS = [''--mute-audio''],
        installations = [''/usr/bin/chrome''],
        probe_outcome = (\<lambda>k. True),
        tmp_dir = (\<lambda>k. ''/tmp/chrome'' @ show_nat k),
        open_fd = (\<lambda>k. 20 + k),
        child_pid = (\<lambda>k. 4000 + k),
        random_port = 9222,
        kill_error = None,
        close_listeners = [(0, ExitWatcher)],
        sigint_listeners = 1,
        timers = [],
        trace =
          [MakeTmpDir ''/tmp/chrome0'',
           OpenSync ''/tmp/chrome0/chrome-out.log'' 20,
           OpenSync ''/tmp/chrome0/chrome-err.log'' 21,
           OpenSync ''/tmp/chrome0/chrome.pid'' 22,
           Logger Info ''created chrome data dir /tmp/chrome0'',
           GetRandomPort,
           SpawnChild (Some ''/usr/bin/chrome'')
             [''--no-first-run'', ''--remote-debugging-port=9222'',
              ''--user-data-dir=/tmp/chrome0'', ''--disable-setuid-sandbox'', ''about:blank'']
             (Some 20) (Some 21) 0,
           OnSigint,
           OnClose 0 ExitWatcher,
           WriteFileSync 22 ''4000'',
           Logger Info ''chrome running with pid 4000 on port 9222.'',
           Logger Info ''wait until chrome ready'',
           IsPortOpen (Some 9222),
           Logger Info ''chrome already now''] \<rparr>)"
  by (simp add: example_session_def eval_defs poll.simps show_nat_small show_nat_9222)

subsection \<open>Restart on unexpected exit\<close>

text \<open>
  Claim C1. The exit watcher, run while \<open>restartUnexpectedChrome\<close> is true, clears
  \<open>chromeProcess\<close> and hands \<open>spawn\<close> to \<open>setTimeout\<close> with a delay of 1000 ms; so
  does the \<open>close\<close> event of a child that carries its exit watcher. While the flag is
  false the watcher does nothing. \<open>kill\<close> always leaves the flag false, no later step
  sets it again, and from then on no event whatsoever schedules a timer.
\<close>

theorem unexpected_exit_restart:
  "(restartUnexpectedChrome s \<longrightarrow>
      run_listener ExitWatcher (s, w) =
        (s\<lparr>chromeProcess := None\<rparr>,
         w\<lparr>timers := timers w @ [(SpawnTask, 1000)],
           trace := trace w @ [SetTimeout SpawnTask 1000,
                               Logger Warn ''chrome exit unexpected, restart it'']\<rparr>))
   \<and> (restartUnexpectedChrome s
        \<and> map snd (filter (\<lambda>cl. fst cl = c) (close_listeners w)) = [ExitWatcher] \<longrightarrow>
        chromeProcess (fst (on_close c s w)) = None
        \<and> timers (snd (on_close c s w)) = timers w @ [(SpawnTask, 1000)]
        \<and> effects_since w (snd (on_close c s w)) =
            [SetTimeout SpawnTask 1000, Logger Warn ''chrome exit unexpected, restart it''])
   \<and> (\<not> restartUnexpectedChrome s \<longrightarrow> run_listener ExitWatcher (s, w) = (s, w))
   \<and> \<not> restartUnexpectedChrome (fst (snd (kill s w)))
   \<and> (\<not> restartUnexpectedChrome s \<longrightarrow>
        \<not> restartUnexpectedChrome (fst (run evs (s, w)))
        \<and> count_effects is_settimeout (snd (run evs (s, w))) = count_effects is_settimeout w)"
proof (intro conjI impI)
  assume "restartUnexpectedChrome s"
  then show "run_listener ExitWatcher (s, w) =
        (s\<lparr>chromeProcess := None\<rparr>,
         w\<lparr>timers := timers w @ [(SpawnTask, 1000)],
           trace := trace w @ [SetTimeout SpawnTask 1000,
                               Logger Warn ''chrome exit unexpected, restart it'']\<rparr>)"
    by (simp add: emit_def)
next
  assume a: "restartUnexpectedChrome s
        \<and> map snd (filter (\<lambda>cl. fst cl = c) (close_listeners w)) = [ExitWatcher]"
  then have eq: "on_close c s w =
      run_listener ExitWatcher (s, w\<lparr>close_listeners := filter (\<lambda>cl. fst cl \<noteq> c) (close_listeners w)\<rparr>)"
    by (simp add: on_close_def)
  show "chromeProcess (fst (on_close c s w)) = None" using a by (simp add: eq)
  show "timers (snd (on_close c s w)) = timers w @ [(SpawnTask, 1000)]" using a by (simp add: eq)
  show "effects_since w (snd (on_close c s w)) =
            [SetTimeout SpawnTask 1000, Logger Warn ''chrome exit unexpected, restart it'']"
    using a by (simp add: eq effects_since_def)
next
  assume "\<not> restartUnexpectedChrome s"
  then show "run_listener ExitWatcher (s, w) = (s, w)" by simp
next
  show "\<not> restartUnexpectedChrome (fst (snd (kill s w)))" by simp
next
  assume off: "\<not> restartUnexpectedChrome s"
  then show "\<not> restartUnexpectedChrome (fst (run evs (s, w)))"
    using run_shutdown [of "(s, w)" evs] by simp
  from off show "count_effects is_settimeout (snd (run evs (s, w))) = count_effects is_settimeout w"
    using run_shutdown [of "(s, w)" evs] by simp
qed

theorem unexpected_exit_restart_witness:
  "restartUnexpectedChrome (fst example_session)
   \<and> map snd (filter (\<lambda>cl. fst cl = 0) (close_listeners (snd example_session))) = [ExitWatcher]
   \<and> chromeProcess (fst (on_close 0 (fst example_session) (snd example_session))) = None
   \<and> timers (snd (on_close 0 (fst example_session) (snd example_session))) = [(SpawnTask, 1000)]
   \<and> \<not> restartUnexpectedChrome (fst (snd (kill (fst example_session) (snd example_session))))
   \<and> count_effects is_settimeout
        (snd (run [ChildClose 0] (snd (kill (fst example_session) (snd example_session))))) = 0"
proof -
  let ?s = "fst example_session" and ?w = "snd example_session"
  let ?k = "snd (kill ?s ?w)"
  have a: "restartUnexpectedChrome ?s
      \<and> map snd (filter (\<lambda>cl. fst cl = 0) (close_listeners ?w)) = [ExitWatcher]"
    by (simp add: example_session_eq)
  have b: "\<not> restartUnexpectedChrome (fst ?k)" by simp
  have "count_effects is_settimeout (snd ?k) = count_effects is_settimeout ?w"
    by (rule kill_count) simp_all
  then have c: "count_effects is_settimeout (snd ?k) = 0"
    by (simp add: count_effects_def example_session_eq)
  from a b c unexpected_exit_restart [of ?s ?w 0 "[]"]
    unexpected_exit_restart [of "fst ?k" "snd ?k" 0 "[ChildClose 0]"]
  show ?thesis by (simp add: example_session_eq)
qed

subsection \<open>Registration of the interrupt handler and the exit watcher\<close>

text \<open>
  Claim C7, as the code has it. A call of \<open>spawn\<close> that finds a tracked child registers
  nothing. A call that starts a child registers one more interrupt handler and one exit
  watcher on the new child: \<open>handleSIGINT\<close> has no guard. Hence, whatever happens to a
  session that starts with no handler registered, the number of interrupt handlers and
  the number of exit watchers registered both equal the number of children started.
\<close>

theorem handlers_per_started_child:
  "(chromeProcess s \<noteq> None \<longrightarrow>
      sigint_listeners (snd (snd (spawn s w))) = sigint_listeners w
      \<and> close_listeners (snd (snd (spawn s w))) = close_listeners w)
   \<and> (chromeProcess s = None \<longrightarrow>
      sigint_listeners (snd (snd (spawn s w))) = sigint_listeners w + 1
      \<and> close_listeners (snd (snd (spawn s w))) =
          close_listeners w @ [(count_effects is_spawn w, ExitWatcher)])
   \<and> (trace w = [] \<and> sigint_listeners w = 0 \<longrightarrow>
      sigint_listeners (snd (run evs (s, w))) = count_effects is_spawn (snd (run evs (s, w)))
      \<and> count_effects is_sigint_reg (snd (run evs (s, w))) = count_effects is_spawn (snd (run evs (s, w)))
      \<and> count_effects is_watcher_reg (snd (run evs (s, w))) = count_effects is_spawn (snd (run evs (s, w))))"
proof (intro conjI impI)
  assume "chromeProcess s \<noteq> None"
  then obtain c where c: "chromeProcess s = Some c" by auto
  show "sigint_listeners (snd (snd (spawn s w))) = sigint_listeners w"
    by (simp add: spawn_tracked [OF c])
  show "close_listeners (snd (snd (spawn s w))) = close_listeners w"
    by (simp add: spawn_tracked [OF c])
next
  assume n: "chromeProcess s = None"
  then show "sigint_listeners (snd (snd (spawn s w))) = sigint_listeners w + 1"
    by (simp add: spawn_registers)
  from n show "close_listeners (snd (snd (spawn s w))) =
          close_listeners w @ [(count_effects is_spawn w, ExitWatcher)]"
    by (simp add: spawn_unfold split: option.splits)
next
  assume a: "trace w = [] \<and> sigint_listeners w = 0"
  then have z: "count_effects is_spawn w = 0" "count_effects is_sigint_reg w = 0"
    "count_effects is_watcher_reg w = 0" "sigint_listeners w = 0"
    by (simp_all add: count_effects_def)
  from run_registers [of evs "(s, w)"] z
  show "sigint_listeners (snd (run evs (s, w))) = count_effects is_spawn (snd (run evs (s, w)))"
    "count_effects is_sigint_reg (snd (run evs (s, w))) = count_effects is_spawn (snd (run evs (s, w)))"
    "count_effects is_watcher_reg (snd (run evs (s, w))) = count_effects is_spawn (snd (run evs (s, w)))"
    by simp_all
qed

theorem handlers_per_started_child_witness:
  "chromeProcess (fst example_session) \<noteq> None
   \<and> sigint_listeners (snd (snd (spawn (fst example_session) (snd example_session)))) = 1
   \<and> chromeProcess (Runner (example_options None None)) = None
   \<and> trace (example_world ''linux'' (\<lambda>k. True)) = []
   \<and> sigint_listeners (example_world ''linux'' (\<lambda>k. True)) = 0
   \<and> sigint_listeners (snd (snd (spawn (Runner (example_options None None))
        (example_world ''linux'' (\<lambda>k. True))))) = 1
   \<and> sigint_listeners (snd (run [CallLaunch, CallSpawn]
        (Runner (example_options None None), example_world ''linux'' (\<lambda>k. True)))) =
      count_effects is_spawn (snd (run [CallLaunch, CallSpawn]
        (Runner (example_options None None), example_world ''linux'' (\<lambda>k. True))))"
  using handlers_per_started_child [of "fst example_session" "snd example_session" "[]"]
    handlers_per_started_child [of "Runner (example_options None None)"
      "example_world ''linux'' (\<lambda>k. True)" "[CallLaunch, CallSpawn]"]
  by (simp add: example_session_eq) (simp add: Runner_def example_world_def)

text \<open>After a first launch, an unexpected exit of the child and the restart timer, two
  interrupt handlers are registered: the second \<open>spawn\<close> registered one more.\<close>

theorem handlers_once_counterexample:
  "sigint_listeners (snd (run [CallLaunch, ChildClose 0, TimerExpires]
      (Runner (example_options None None), example_world ''linux'' (\<lambda>k. True)))) = 2
   \<and> count_effects is_watcher_reg (snd (run [CallLaunch, ChildClose 0, TimerExpires]
      (Runner (example_options None None), example_world ''linux'' (\<lambda>k. True)))) = 2"
  by (simp add: eval_defs poll.simps run_def on_close_def on_timeout_def)

subsection \<open>Killing a session\<close>

text \<open>
  Claim C5. \<open>kill\<close> on a session without a tracked child resolves at once and does
  nothing else to the outside. On a session with a tracked child, the first \<open>kill\<close>
  clears the handle, so a second \<open>kill\<close>, whether it comes before or after the child's
  \<open>close\<close> event, is again a call without a tracked child: it resolves at once and
  closes or removes nothing. \<open>kill\<close> has no failing outcome.
\<close>

theorem kill_idempotent:
  "(chromeProcess s = None \<longrightarrow>
      kill s w = (True, s\<lparr>restartUnexpectedChrome := False\<rparr>, emit KillResolved w))
   \<and> (chromeProcess s = Some c \<longrightarrow>
      (let (r1, s1, w1) = kill s w in
         \<not> r1
         \<and> kill s1 w1 = (True, s1, emit KillResolved w1)
         \<and> (let (s2, w2) = on_close c s1 w1 in
              kill s2 w2 = (True, s2, emit KillResolved w2))))"
proof (intro conjI impI)
  assume "chromeProcess s = None"
  then show "kill s w = (True, s\<lparr>restartUnexpectedChrome := False\<rparr>, emit KillResolved w)"
    by (simp add: kill_def)
next
  assume c: "chromeProcess s = Some c"
  obtain r1 s1 w1 where k: "kill s w = (r1, s1, w1)" by (cases "kill s w") auto
  obtain s2 w2 where o: "on_close c s1 w1 = (s2, w2)" by (cases "on_close c s1 w1") auto
  have r1: "\<not> r1" using k c by (auto simp add: kill_def Let_def)
  have s1: "chromeProcess s1 = None" "\<not> restartUnexpectedChrome s1"
    using kill_keeps(1,2) [of s w] k by simp_all
  have s2: "chromeProcess s2 = None" "\<not> restartUnexpectedChrome s2"
    using on_close_shutdown(3) [OF s1(2), of c w1] on_close_keeps(1) [of c s1 w1] s1 o by simp_all
  have again: "\<And>s' w'. chromeProcess s' = None \<Longrightarrow> \<not> restartUnexpectedChrome s' \<Longrightarrow>
      kill s' w' = (True, s', emit KillResolved w')"
    by (simp add: kill_def)
  show "let (r1, s1, w1) = kill s w in
         \<not> r1
         \<and> kill s1 w1 = (True, s1, emit KillResolved w1)
         \<and> (let (s2, w2) = on_close c s1 w1 in
              kill s2 w2 = (True, s2, emit KillResolved w2))"
    using r1 again [OF s1] again [OF s2] by (simp add: k o)
qed

theorem kill_idempotent_witness:
  "chromeProcess (Runner (example_options None None)) = None
   \<and> fst (kill (Runner (example_options None None)) (example_world ''linux'' (\<lambda>k. True)))
   \<and> chromeProcess (fst example_session) = Some 0
   \<and> \<not> fst (kill (fst example_session) (snd example_session))
   \<and> fst (kill (fst (snd (kill (fst example_session) (snd example_session))))
             (snd (snd (kill (fst example_session) (snd example_session)))))"
  using kill_idempotent [of "Runner (example_options None None)"
      "example_world ''linux'' (\<lambda>k. True)" 0]
    kill_idempotent [of "fst example_session" "snd example_session" 0]
  by (simp add: case_prod_unfold Let_def) (simp add: Runner_def example_session_eq)

subsection \<open>Preparing the workspace\<close>

text \<open>
  Claim C8, as the code has it. On a supported platform \<open>prepare\<close> makes one
  directory, opens the three files \<open>chrome-out.log\<close>, \<open>chrome-err.log\<close> and
  \<open>chrome.pid\<close> in it, logs one line and sets the guard \<open>tmpDirandPidFileReady\<close>;
  nothing else. The guard is read by \<open>launch\<close>, not by \<open>prepare\<close>: \<open>launch\<close> on a
  session whose guard is set neither makes a directory nor opens a file, and keeps the
  workspace it has; when the session also tracks a child, that \<open>launch\<close> writes
  nothing to the file system at all. On an unsupported platform \<open>prepare\<close> throws
  with the object and the surroundings untouched, the guard included.
\<close>

theorem prepare_once:
  "(platform w \<in> set SUPPORTED_PLATFORMS \<longrightarrow>
      (let dir = tmp_dir w (count_effects is_mktmp w);
           n = count_effects is_open w;
           (r, s', w') = prepare s w
       in r = Inr ()
          \<and> effects_since w w' =
              [MakeTmpDir dir,
               OpenSync (dir @ ''/chrome-out.log'') (open_fd w n),
               OpenSync (dir @ ''/chrome-err.log'') (open_fd w (n + 1)),
               OpenSync (dir @ ''/chrome.pid'') (open_fd w (n + 2)),
               Logger Info (''created chrome data dir '' @ dir)]
          \<and> s' = s\<lparr>chromeDataDir := Some dir, chromeOutFile := Some (open_fd w n),
                   chromeErrorFile := Some (open_fd w (n + 1)), pidFile := Some (open_fd w (n + 2)),
                   tmpDirandPidFileReady := True\<rparr>))
   \<and> (tmpDirandPidFileReady s \<longrightarrow>
      (let (r, s', w') = launch s w
       in count_effects is_mktmp w' = count_effects is_mktmp w
          \<and> count_effects is_open w' = count_effects is_open w
          \<and> tmpDirandPidFileReady s' \<and> chromeDataDir s' = chromeDataDir s
          \<and> (chromeProcess s \<noteq> None \<longrightarrow> count_effects is_fs_write w' = count_effects is_fs_write w)))
   \<and> (platform w \<notin> set SUPPORTED_PLATFORMS \<longrightarrow>
      prepare s w = (Inl (UnsupportedPlatform (platform w)), s, w))"
proof (intro conjI impI)
  assume "platform w \<in> set SUPPORTED_PLATFORMS"
  then show "let dir = tmp_dir w (count_effects is_mktmp w);
           n = count_effects is_open w;
           (r, s', w') = prepare s w
       in r = Inr ()
          \<and> effects_since w w' =
              [MakeTmpDir dir,
               OpenSync (dir @ ''/chrome-out.log'') (open_fd w n),
               OpenSync (dir @ ''/chrome-err.log'') (open_fd w (n + 1)),
               OpenSync (dir @ ''/chrome.pid'') (open_fd w (n + 2)),
               Logger Info (''created chrome data dir '' @ dir)]
          \<and> s' = s\<lparr>chromeDataDir := Some dir, chromeOutFile := Some (open_fd w n),
                   chromeErrorFile := Some (open_fd w (n + 1)), pidFile := Some (open_fd w (n + 2)),
                   tmpDirandPidFileReady := True\<rparr>"
    by (simp add: prepare_def Let_def effects_since_def template_str_def)
next
  assume ready: "tmpDirandPidFileReady s"
  have fs: "chromeProcess s \<noteq> None \<Longrightarrow>
      count_effects is_fs_write (snd (snd (launch s w))) = count_effects is_fs_write w"
  proof -
    assume "chromeProcess s \<noteq> None"
    then obtain c where c: "chromeProcess s = Some c" by auto
    show ?thesis
      using ready
      by (simp add: launch_unfold launch_new_unfold spawn_tracked c split: list.splits)
  qed
  show "let (r, s', w') = launch s w
       in count_effects is_mktmp w' = count_effects is_mktmp w
          \<and> count_effects is_open w' = count_effects is_open w
          \<and> tmpDirandPidFileReady s' \<and> chromeDataDir s' = chromeDataDir s
          \<and> (chromeProcess s \<noteq> None \<longrightarrow> count_effects is_fs_write w' = count_effects is_fs_write w)"
    using launch_ready_count [OF ready, of w] launch_ready_keeps [OF ready, of w] fs
    by (simp add: case_prod_unfold)
next
  assume "platform w \<notin> set SUPPORTED_PLATFORMS"
  then show "prepare s w = (Inl (UnsupportedPlatform (platform w)), s, w)"
    by (simp add: prepare_def)
qed

theorem prepare_once_witness:
  "platform (example_world ''linux'' (\<lambda>k. True)) \<in> set SUPPORTED_PLATFORMS
   \<and> effects_since (example_world ''linux'' (\<lambda>k. True))
        (snd (snd (prepare (Runner (example_options None None)) (example_world ''linux'' (\<lambda>k. True))))) =
       [MakeTmpDir ''/tmp/chrome0'',
        OpenSync ''/tmp/chrome0/chrome-out.log'' 20,
        OpenSync ''/tmp/chrome0/chrome-err.log'' 21,
        OpenSync ''/tmp/chrome0/chrome.pid'' 22,
        Logger Info ''created chrome data dir /tmp/chrome0'']
   \<and> tmpDirandPidFileReady (fst example_session) \<and> chromeProcess (fst example_session) \<noteq> None
   \<and> count_effects is_fs_write (snd (snd (launch (fst example_session) (snd example_session)))) = 5
   \<and> platform (example_world ''sunos'' (\<lambda>k. True)) \<notin> set SUPPORTED_PLATFORMS
   \<and> fst (prepare (Runner (example_options None None)) (example_world ''sunos'' (\<lambda>k. True))) =
       Inl (UnsupportedPlatform ''sunos'')"
  using prepare_once [of "example_world ''linux'' (\<lambda>k. True)" "Runner (example_options None None)"]
    prepare_once [of "snd example_session" "fst example_session"]
    prepare_once [of "example_world ''sunos'' (\<lambda>k. True)" "Runner (example_options None None)"]
  by (simp add: case_prod_unfold Let_def)
     (simp add: example_session_eq example_world_def SUPPORTED_PLATFORMS_def count_effects_def
        show_nat_small)

text \<open>\<open>prepare\<close> itself does not read the guard: called a second time on the
  session it has just prepared, it makes a second directory and opens three more
  files. And a second \<open>launch\<close> on a prepared session that tracks no child (here:
  after \<open>kill\<close> and the child's \<open>close\<close> event, the port no longer reachable at
  first) still writes the new pid to the pid file, though it creates nothing.\<close>

theorem prepare_guard_counterexample:
  "tmpDirandPidFileReady
     (fst (snd (prepare (Runner (example_options None None)) (example_world ''linux'' (\<lambda>k. True)))))
   \<and> effects_since
        (snd (snd (prepare (Runner (example_options None None)) (example_world ''linux'' (\<lambda>k. True)))))
        (snd (snd (prepare
          (fst (snd (prepare (Runner (example_options None None)) (example_world ''linux'' (\<lambda>k. True)))))
          (snd (snd (prepare (Runner (example_options None None)) (example_world ''linux'' (\<lambda>k. True)))))))) =
       [MakeTmpDir ''/tmp/chrome1'',
        OpenSync ''/tmp/chrome1/chrome-out.log'' 23,
        OpenSync ''/tmp/chrome1/chrome-err.log'' 24,
        OpenSync ''/tmp/chrome1/chrome.pid'' 25,
        Logger Info ''created chrome data dir /tmp/chrome1'']
   \<and> tmpDirandPidFileReady (fst (run [CallLaunch, CallKill, ChildClose 0]
        (Runner (example_options None None), example_world ''linux'' (\<lambda>k. k \<noteq> 1))))
   \<and> effects_since
        (snd (run [CallLaunch, CallKill, ChildClose 0]
          (Runner (example_options None None), example_world ''linux'' (\<lambda>k. k \<noteq> 1))))
        (snd (run [CallLaunch, CallKill, ChildClose 0, CallLaunch]
          (Runner (example_options None None), example_world ''linux'' (\<lambda>k. k \<noteq> 1)))) =
       [IsPortOpen (Some 9222),
        Logger Warn ''no chrome found on port 9222, launching a new Chrome.'',
        SpawnChild (Some ''/usr/bin/chrome'')
          [''--no-first-run'', ''--remote-debugging-port=9222'',
           ''--user-data-dir=/tmp/chrome0'', ''--disable-setuid-sandbox'', ''about:blank'']
          None None 1,
        OnSigint, OnClose 1 ExitWatcher,
        WriteFileSync 22 ''4001'',
        Logger Info ''chrome running with pid 4001 on port 9222.'',
        Logger Info ''wait until chrome ready'',
        IsPortOpen (Some 9222),
        Logger Info ''chrome already now'']"
proof -
  have twice: "effects_since
        (snd (snd (prepare (Runner (example_options None None)) (example_world ''linux'' (\<lambda>k. True)))))
        (snd (snd (prepare
          (fst (snd (prepare (Runner (example_options None None)) (example_world ''linux'' (\<lambda>k. True)))))
          (snd (snd (prepare (Runner (example_options None None)) (example_world ''linux'' (\<lambda>k. True)))))))) =
       [MakeTmpDir ''/tmp/chrome1'',
        OpenSync ''/tmp/chrome1/chrome-out.log'' 23,
        OpenSync ''/tmp/chrome1/chrome-err.log'' 24,
        OpenSync ''/tmp/chrome1/chrome.pid'' 25,
        Logger Info ''created chrome data dir /tmp/chrome1'']"
    "tmpDirandPidFileReady
     (fst (snd (prepare (Runner (example_options None None)) (example_world ''linux'' (\<lambda>k. True)))))"
    by (simp_all add: prepare_def Let_def example_world_def SUPPORTED_PLATFORMS_def emit_def
        count_effects_def effects_since_def template_str_def show_nat.simps digit_char_def)
  have relaunch: "tmpDirandPidFileReady (fst (run [CallLaunch, CallKill, ChildClose 0]
        (Runner (example_options None None), example_world ''linux'' (\<lambda>k. k \<noteq> 1))))
   \<and> effects_since
        (snd (run [CallLaunch, CallKill, ChildClose 0]
          (Runner (example_options None None), example_world ''linux'' (\<lambda>k. k \<noteq> 1))))
        (snd (run [CallLaunch, CallKill, ChildClose 0, CallLaunch]
          (Runner (example_options None None), example_world ''linux'' (\<lambda>k. k \<noteq> 1)))) =
       [IsPortOpen (Some 9222),
        Logger Warn ''no chrome found on port 9222, launching a new Chrome.'',
        SpawnChild (Some ''/usr/bin/chrome'')
          [''--no-first-run'', ''--remote-debugging-port=9222'',
           ''--user-data-dir=/tmp/chrome0'', ''--disable-setuid-sandbox'', ''about:blank'']
          None None 1,
        OnSigint, OnClose 1 ExitWatcher,
        WriteFileSync 22 ''4001'',
        Logger Info ''chrome running with pid 4001 on port 9222.'',
        Logger Info ''wait until chrome ready'',
        IsPortOpen (Some 9222),
        Logger Info ''chrome already now'']"
    by (simp add: eval_defs poll.simps run_def on_close_def kill_def destroyTmp_def isWindows_def
        effects_since_def show_nat_small show_nat_9222)
  from twice relaunch show ?thesis by blast
qed

subsection \<open>The exported launchers\<close>

lemma launchWithoutNoise_chromeFlags:
  "chromeFlags (fst (snd (launchWithoutNoise opts w))) =
     (case opt_chromeFlags opts of Some fs \<Rightarrow> fs | None \<Rightarrow> NOISE_FLAGS w)"
  by (simp add: launchWithoutNoise_def assign_chromeFlags_def Runner_def Let_def
      split: option.splits)

lemma launchWithHeadless_chromeFlags:
  "chromeFlags (fst (snd (launchWithHeadless opts w))) =
     (case opt_chromeFlags opts of
        Some fs \<Rightarrow> fs
      | None \<Rightarrow> NOISE_FLAGS w @ [''--headless'', ''--disable-gpu''])"
  by (simp add: launchWithHeadless_def assign_chromeFlags_def Runner_def Let_def
      split: option.splits)

text \<open>
  Claim C6 at a caller who passes \<open>chromeFlags\<close>. \<open>Object.assign\<close> copies the
  caller's \<open>chromeFlags\<close> over the list that was just built, so the session holds the
  caller's flags alone: neither the noise flags nor \<open>--headless\<close> and \<open>--disable-gpu\<close>
  reach the flag list.
\<close>

theorem launchers_drop_injected_flags:
  "chromeFlags (fst (snd (launchWithoutNoise (example_options None (Some [''--foo'']))
      (example_world ''linux'' (\<lambda>k. True))))) = [''--foo'']
   \<and> flags (fst (snd (launchWithoutNoise (example_options None (Some [''--foo'']))
        (example_world ''linux'' (\<lambda>k. True)))))
      (snd (snd (launchWithoutNoise (example_options None (Some [''--foo'']))
        (example_world ''linux'' (\<lambda>k. True))))) =
      [''--no-first-run'', ''--remote-debugging-port=9222'', ''--user-data-dir=/tmp/chrome0'',
       ''--disable-setuid-sandbox'', ''--foo'', ''about:blank'']
   \<and> chromeFlags (fst (snd (launchWithHeadless (example_options None (Some [''--foo'']))
      (example_world ''linux'' (\<lambda>k. True))))) = [''--foo'']
   \<and> flags (fst (snd (launchWithHeadless (example_options None (Some [''--foo'']))
        (example_world ''linux'' (\<lambda>k. True)))))
      (snd (snd (launchWithHeadless (example_options None (Some [''--foo'']))
        (example_world ''linux'' (\<lambda>k. True))))) =
      [''--no-first-run'', ''--remote-debugging-port=9222'', ''--user-data-dir=/tmp/chrome0'',
       ''--disable-setuid-sandbox'', ''--foo'', ''about:blank'']
   \<and> NOISE_FLAGS (example_world ''linux'' (\<lambda>k. True)) = [''--mute-audio'']"
  by (simp add: launchWithoutNoise_def launchWithHeadless_def assign_chromeFlags_def eval_defs
      poll.simps show_nat_small show_nat_9222)

text \<open>Without \<open>chromeFlags\<close> in the options the injected flags do reach the session.\<close>

lemma launchers_inject_without_caller_flags:
  "opt_chromeFlags opts = None \<Longrightarrow>
   chromeFlags (fst (snd (launchWithoutNoise opts w))) = NOISE_FLAGS w
   \<and> chromeFlags (fst (snd (launchWithHeadless opts w))) =
       NOISE_FLAGS w @ [''--headless'', ''--disable-gpu'']"
  by (simp add: launchWithoutNoise_chromeFlags launchWithHeadless_chromeFlags)

subsection \<open>Readiness polling: \<open>waitUntilReady\<close> and \<open>launch\<close>\<close>

lemma waitUntilReady_rejects:
  "(\<forall>i\<le>10. \<not> probe_outcome w (count_effects is_probe w + i)) \<Longrightarrow>
   waitUntilReady s w =
     (Inl ProbeRejected,
      w\<lparr>trace := trace w @ Logger Info ''wait until chrome ready''
                   # concat (replicate 10 [IsPortOpen (port s), Delay 500])
                   @ [IsPortOpen (port s)]\<rparr>)"
  using poll_rejects [of 10 0 "emit (Logger Info ''wait until chrome ready'') w" s]
  by (simp add: waitUntilReady_def emit_def count_effects_def)

lemma waitUntilReady_resolves:
  "k \<le> 10 \<Longrightarrow> (\<forall>i<k. \<not> probe_outcome w (count_effects is_probe w + i)) \<Longrightarrow>
   probe_outcome w (count_effects is_probe w + k) \<Longrightarrow>
   waitUntilReady s w =
     (Inr (),
      w\<lparr>trace := trace w @ Logger Info ''wait until chrome ready''
                   # concat (replicate k [IsPortOpen (port s), Delay 500])
                   @ [IsPortOpen (port s), Logger Info ''chrome already now'']\<rparr>)"
  using poll_resolves [of 0 k "emit (Logger Info ''wait until chrome ready'') w" s]
  by (simp add: waitUntilReady_def emit_def count_effects_def)

lemma waitUntilReady_budget:
  "count_effects is_probe w < count_effects is_probe (snd (waitUntilReady s w))
   \<and> count_effects is_probe (snd (waitUntilReady s w)) \<le> count_effects is_probe w + 11
   \<and> total_delay (snd (waitUntilReady s w)) + 500 =
       total_delay w + 500 * (count_effects is_probe (snd (waitUntilReady s w)) - count_effects is_probe w)"
  using poll_delay [of 0 s "emit (Logger Info ''wait until chrome ready'') w"]
  by (simp add: waitUntilReady_def)

lemma count_probe_concat:
  "length (filter is_probe (concat (replicate k [IsPortOpen p, Delay d]))) = k"
  by (induction k) simp_all

lemma delay_concat:
  "sum_list (map delay_ms (concat (replicate k [IsPortOpen p, Delay d]))) = k * d"
  by (induction k) simp_all

lemma total_delay_update [simp]:
  "total_delay (w\<lparr>sigint_listeners := n\<rparr>) = total_delay w"
  "total_delay (w\<lparr>close_listeners := cl\<rparr>) = total_delay w"
  "total_delay (w\<lparr>timers := ts\<rparr>) = total_delay w"
  by (simp_all add: total_delay_def)

lemma waitUntilReady_rejects_counts:
  assumes "\<forall>i\<le>10. \<not> probe_outcome w (count_effects is_probe w + i)"
  shows "fst (waitUntilReady s w) = Inl ProbeRejected"
    and "count_effects is_probe (snd (waitUntilReady s w)) = count_effects is_probe w + 11"
    and "total_delay (snd (waitUntilReady s w)) = total_delay w + 5000"
  by (simp_all add: waitUntilReady_rejects [OF assms] count_effects_def total_delay_def
      count_probe_concat delay_concat)

lemma waitUntilReady_resolves_counts:
  assumes "\<forall>i<10. \<not> probe_outcome w (count_effects is_probe w + i)"
    "probe_outcome w (count_effects is_probe w + 10)"
  shows "fst (waitUntilReady s w) = Inr ()"
    and "count_effects is_probe (snd (waitUntilReady s w)) = count_effects is_probe w + 11"
    and "total_delay (snd (waitUntilReady s w)) = total_delay w + 5000"
  using waitUntilReady_resolves [of 10 w s] assms
  by (simp_all add: count_effects_def total_delay_def count_probe_concat delay_concat)

subsection \<open>A \<open>spawn\<close> that starts a child\<close>

text \<open>When no child is tracked and the pid file is open, \<open>spawn\<close> starts a child and
  its outcome is the outcome of \<open>waitUntilReady\<close>. Up to that call it has made no
  probe, slept for no time, torn nothing down, and added only its own calls to the
  trace.\<close>

lemma spawn_new_decomp:
  assumes none: "chromeProcess s = None" and pf: "pidFile s = Some pf"
  shows "\<exists>s2 w6 pre.
     spawn s w = (case waitUntilReady s2 w6 of
                    (Inl e, w7) \<Rightarrow> (Inl e, s2, w7)
                  | (Inr u, w7) \<Rightarrow> (Inr None, s2, w7))
     \<and> s2 = s\<lparr>port := (if truthy_nat (port s) then port s else Some (random_port w)),
              chromeProcess := Some (count_effects is_spawn w)\<rparr>
     \<and> w6 = w\<lparr>sigint_listeners := sigint_listeners w + 1,
              close_listeners := close_listeners w @ [(count_effects is_spawn w, ExitWatcher)],
              trace := trace w @ pre\<rparr>
     \<and> filter is_probe pre = [] \<and> sum_list (map delay_ms pre) = 0
     \<and> filter is_teardown pre = [] \<and> filter is_mktmp pre = [] \<and> filter is_open pre = []
     \<and> length (filter is_spawn pre) = 1
     \<and> (\<exists>fl. SpawnChild (chromePath s) fl (chromeOutFile s) (chromeErrorFile s)
                 (count_effects is_spawn w) \<in> set pre
              \<and> ''--user-data-dir='' @ template_str (chromeDataDir s) \<in> set fl)"
proof (cases "truthy_nat (port s)")
  case True
  let ?c = "count_effects is_spawn w"
  let ?s2 = "s\<lparr>chromeProcess := Some ?c\<rparr>"
  let ?pre = "[SpawnChild (chromePath s) (flags s w) (chromeOutFile s) (chromeErrorFile s) ?c,
      OnSigint, OnClose ?c ExitWatcher, WriteFileSync pf (show_nat (child_pid w ?c)),
      Logger Info (''chrome running with pid '' @ show_nat (child_pid w ?c)
         @ '' on port '' @ template_nat (port s) @ ''.'')]"
  let ?w6 = "w\<lparr>sigint_listeners := sigint_listeners w + 1,
              close_listeners := close_listeners w @ [(?c, ExitWatcher)],
              trace := trace w @ ?pre\<rparr>"
  have "spawn s w = (case waitUntilReady ?s2 ?w6 of
                    (Inl e, w7) \<Rightarrow> (Inl e, ?s2, w7)
                  | (Inr u, w7) \<Rightarrow> (Inr None, ?s2, w7))"
    using none pf True
    by (simp add: spawn_def handleSIGINT_def handleChromeUnexpectedExit_def Let_def emit_def)
  moreover have "?s2 = s\<lparr>port := (if truthy_nat (port s) then port s else Some (random_port w)),
              chromeProcess := Some ?c\<rparr>"
    using True by simp
  moreover have "''--user-data-dir='' @ template_str (chromeDataDir s) \<in> set (flags s w)"
    by (simp add: flags_def Let_def)
  ultimately show ?thesis
    by (intro exI [of _ ?s2] exI [of _ ?w6] exI [of _ ?pre]) auto
next
  case False
  let ?c = "count_effects is_spawn w"
  let ?s1 = "s\<lparr>port := Some (random_port w)\<rparr>"
  let ?s2 = "s\<lparr>port := Some (random_port w), chromeProcess := Some ?c\<rparr>"
  let ?pre = "[GetRandomPort,
      SpawnChild (chromePath s) (flags ?s1 w) (chromeOutFile s) (chromeErrorFile s) ?c,
      OnSigint, OnClose ?c ExitWatcher, WriteFileSync pf (show_nat (child_pid w ?c)),
      Logger Info (''chrome running with pid '' @ show_nat (child_pid w ?c)
         @ '' on port '' @ template_nat (Some (random_port w)) @ ''.'')]"
  let ?w6 = "w\<lparr>sigint_listeners := sigint_listeners w + 1,
              close_listeners := close_listeners w @ [(?c, ExitWatcher)],
              trace := trace w @ ?pre\<rparr>"
  have fl: "flags ?s1 (emit GetRandomPort w) = flags ?s1 w"
    by (simp add: flags_def)
  have "spawn s w = (case waitUntilReady ?s2 ?w6 of
                    (Inl e, w7) \<Rightarrow> (Inl e, ?s2, w7)
                  | (Inr u, w7) \<Rightarrow> (Inr None, ?s2, w7))"
    using none pf False
    by (simp add: spawn_def handleSIGINT_def handleChromeUnexpectedExit_def Let_def fl)
       (simp add: emit_def case_prod_unfold sum.case_eq_if count_effects_def)
  moreover have "?s2 = s\<lparr>port := (if truthy_nat (port s) then port s else Some (random_port w)),
              chromeProcess := Some ?c\<rparr>"
    using False by simp
  moreover have "''--user-data-dir='' @ template_str (chromeDataDir s) \<in> set (flags ?s1 w)"
    by (simp add: flags_def Let_def)
  ultimately show ?thesis
    by (intro exI [of _ ?s2] exI [of _ ?w6] exI [of _ ?pre]) auto
qed

subsection \<open>A first \<open>launch\<close> on a machine where Chrome can start\<close>

text \<open>On a supported platform, with an executable given or found, the part of
  \<open>launch\<close> after the port probe prepares the workspace of a new session, starts a
  child and ends as \<open>waitUntilReady\<close> ends.\<close>

lemma launch_new_fresh:
  assumes plat: "platform w \<in> set SUPPORTED_PLATFORMS"
    and exe: "truthy_str (opt_chromePath opts) \<or> installations w \<noteq> []"
  shows "\<exists>s3 w6 pre.
     launch_new (Runner opts) w = (case waitUntilReady s3 w6 of
                    (Inl e, w7) \<Rightarrow> (Inl e, s3, w7)
                  | (Inr u, w7) \<Rightarrow> (Inr This, s3, w7))
     \<and> chromeProcess s3 = Some (count_effects is_spawn w)
     \<and> tmpDirandPidFileReady s3
     \<and> chromeDataDir s3 = Some (tmp_dir w (count_effects is_mktmp w))
     \<and> w6 = w\<lparr>sigint_listeners := sigint_listeners w + 1,
              close_listeners := close_listeners w @ [(count_effects is_spawn w, ExitWatcher)],
              trace := trace w @ MakeTmpDir (tmp_dir w (count_effects is_mktmp w)) # pre\<rparr>
     \<and> filter is_probe pre = [] \<and> sum_list (map delay_ms pre) = 0
     \<and> filter is_teardown pre = [] \<and> filter is_mktmp pre = []
     \<and> length (filter is_open pre) = 3 \<and> length (filter is_spawn pre) = 1"
proof -
  let ?dir = "tmp_dir w (count_effects is_mktmp w)"
  let ?n = "count_effects is_open w"
  let ?s1 = "(Runner opts)\<lparr>chromeDataDir := Some ?dir, chromeOutFile := Some (open_fd w ?n),
      chromeErrorFile := Some (open_fd w (?n + 1)), pidFile := Some (open_fd w (?n + 2)),
      tmpDirandPidFileReady := True\<rparr>"
  let ?p1 = "[OpenSync (?dir @ ''/chrome-out.log'') (open_fd w ?n),
      OpenSync (?dir @ ''/chrome-err.log'') (open_fd w (?n + 1)),
      OpenSync (?dir @ ''/chrome.pid'') (open_fd w (?n + 2)),
      Logger Info (''created chrome data dir '' @ ?dir)]"
  let ?w1 = "w\<lparr>trace := trace w @ MakeTmpDir ?dir # ?p1\<rparr>"
  have prep: "prepare (Runner opts) w = (Inr (), ?s1, ?w1)"
    using plat by (simp add: prepare_def Let_def template_str_def emit_def count_effects_def)
  have fresh: "\<not> tmpDirandPidFileReady (Runner opts)" "chromePath (Runner opts) = opt_chromePath opts"
    by (simp_all add: Runner_def)
  obtain s2 p2 where res:
    "launch_new (Runner opts) w = (case spawn s2 (w\<lparr>trace := trace w @ MakeTmpDir ?dir # ?p1 @ p2\<rparr>) of
                    (Inl e, s3, w3) \<Rightarrow> (Inl e, s3, w3)
                  | (Inr v, s3, w3) \<Rightarrow> (Inr This, s3, w3))"
    "chromeProcess s2 = None" "pidFile s2 = Some (open_fd w (?n + 2))"
    "tmpDirandPidFileReady s2" "chromeDataDir s2 = Some ?dir"
    "p2 = [] \<or> p2 = [ChromeFinder (platform w)]"
  proof (cases "truthy_str (opt_chromePath opts)")
    case True
    have "launch_new (Runner opts) w = (case spawn ?s1 (w\<lparr>trace := trace w @ MakeTmpDir ?dir # ?p1 @ []\<rparr>) of
                    (Inl e, s3, w3) \<Rightarrow> (Inl e, s3, w3)
                  | (Inr v, s3, w3) \<Rightarrow> (Inr This, s3, w3))"
      using True fresh by (simp add: launch_new_def prep)
    moreover have "chromeProcess ?s1 = None" by (simp add: Runner_def)
    ultimately show ?thesis by (intro that [of ?s1 "[]"]) simp_all
  next
    case False
    with exe obtain p ps where inst: "installations w = p # ps" by (cases "installations w") auto
    let ?s2 = "?s1\<lparr>chromePath := Some p\<rparr>"
    have "launch_new (Runner opts) w =
        (case spawn ?s2 (w\<lparr>trace := trace w @ MakeTmpDir ?dir # ?p1 @ [ChromeFinder (platform w)]\<rparr>) of
                    (Inl e, s3, w3) \<Rightarrow> (Inl e, s3, w3)
                  | (Inr v, s3, w3) \<Rightarrow> (Inr This, s3, w3))"
      using False fresh inst by (simp add: launch_new_def prep Let_def emit_def)
    moreover have "chromeProcess ?s2 = None" by (simp add: Runner_def)
    ultimately show ?thesis by (intro that [of ?s2 "[ChromeFinder (platform w)]"]) simp_all
  qed
  let ?w2 = "w\<lparr>trace := trace w @ MakeTmpDir ?dir # ?p1 @ p2\<rparr>"
  from spawn_new_decomp [OF res(2,3), of ?w2]
  obtain s3 w6 p3 where sp:
    "spawn s2 ?w2 = (case waitUntilReady s3 w6 of
                    (Inl e, w7) \<Rightarrow> (Inl e, s3, w7)
                  | (Inr u, w7) \<Rightarrow> (Inr None, s3, w7))"
    "s3 = s2\<lparr>port := (if truthy_nat (port s2) then port s2 else Some (random_port ?w2)),
              chromeProcess := Some (count_effects is_spawn ?w2)\<rparr>"
    "w6 = ?w2\<lparr>sigint_listeners := sigint_listeners ?w2 + 1,
              close_listeners := close_listeners ?w2 @ [(count_effects is_spawn ?w2, ExitWatcher)],
              trace := trace ?w2 @ p3\<rparr>"
    "filter is_probe p3 = []" "sum_list (map delay_ms p3) = 0"
    "filter is_teardown p3 = []" "filter is_mktmp p3 = []" "filter is_open p3 = []"
    "length (filter is_spawn p3) = 1"
    by blast
  have cnt: "count_effects is_spawn ?w2 = count_effects is_spawn w"
    using res(6) by (auto simp add: count_effects_def)
  have eq: "launch_new (Runner opts) w = (case waitUntilReady s3 w6 of
                    (Inl e, w7) \<Rightarrow> (Inl e, s3, w7)
                  | (Inr u, w7) \<Rightarrow> (Inr This, s3, w7))"
    unfolding res(1) sp(1) by (simp split: prod.splits sum.splits)
  have s3: "chromeProcess s3 = Some (count_effects is_spawn w)" "tmpDirandPidFileReady s3"
    "chromeDataDir s3 = Some ?dir"
    using sp(2) res(4,5) cnt by simp_all
  have w6: "w6 = w\<lparr>sigint_listeners := sigint_listeners w + 1,
              close_listeners := close_listeners w @ [(count_effects is_spawn w, ExitWatcher)],
              trace := trace w @ MakeTmpDir ?dir # (?p1 @ p2 @ p3)\<rparr>"
    using sp(3) cnt by simp
  have pre: "filter is_probe (?p1 @ p2 @ p3) = []" "sum_list (map delay_ms (?p1 @ p2 @ p3)) = 0"
    "filter is_teardown (?p1 @ p2 @ p3) = []" "filter is_mktmp (?p1 @ p2 @ p3) = []"
    "length (filter is_open (?p1 @ p2 @ p3)) = 3" "length (filter is_spawn (?p1 @ p2 @ p3)) = 1"
    using sp(4-9) res(6) by auto
  from eq s3 w6 pre show ?thesis by blast
qed

lemma waitUntilReady_appends:
  "\<exists>ext. trace (snd (waitUntilReady s w)) = trace w @ ext"
  using poll_appends [of s 0 "emit (Logger Info ''wait until chrome ready'') w"]
  by (auto simp add: waitUntilReady_def)

lemma waitUntilReady_counts [simp]:
  "count_effects is_spawn (snd (waitUntilReady s w)) = count_effects is_spawn w"
  "count_effects is_mktmp (snd (waitUntilReady s w)) = count_effects is_mktmp w"
  "count_effects is_open (snd (waitUntilReady s w)) = count_effects is_open w"
  "count_effects is_teardown (snd (waitUntilReady s w)) = count_effects is_teardown w"
  by (simp_all add: waitUntilReady_def)

lemma waitUntilReady_listeners [simp]:
  "close_listeners (snd (waitUntilReady s w)) = close_listeners w"
  "sigint_listeners (snd (waitUntilReady s w)) = sigint_listeners w"
  by (simp_all add: waitUntilReady_def)

text \<open>The outcome of a first \<open>launch\<close> in terms of the wait it ends with.\<close>

lemma launch_new_fresh_outcome:
  assumes plat: "platform w \<in> set SUPPORTED_PLATFORMS"
    and exe: "truthy_str (opt_chromePath opts) \<or> installations w \<noteq> []"
  shows "\<exists>s3 w6.
     fst (launch_new (Runner opts) w) = map_sum id (\<lambda>u. This) (fst (waitUntilReady s3 w6))
     \<and> fst (snd (launch_new (Runner opts) w)) = s3
     \<and> snd (snd (launch_new (Runner opts) w)) = snd (waitUntilReady s3 w6)
     \<and> chromeProcess s3 = Some (count_effects is_spawn w)
     \<and> tmpDirandPidFileReady s3
     \<and> chromeDataDir s3 = Some (tmp_dir w (count_effects is_mktmp w))
     \<and> probe_outcome w6 = probe_outcome w
     \<and> close_listeners w6 = close_listeners w @ [(count_effects is_spawn w, ExitWatcher)]
     \<and> count_effects is_probe w6 = count_effects is_probe w
     \<and> total_delay w6 = total_delay w
     \<and> count_effects is_teardown w6 = count_effects is_teardown w
     \<and> count_effects is_mktmp w6 = count_effects is_mktmp w + 1
     \<and> count_effects is_open w6 = count_effects is_open w + 3
     \<and> count_effects is_spawn w6 = count_effects is_spawn w + 1
     \<and> (\<exists>pre. trace w6 = trace w @ MakeTmpDir (tmp_dir w (count_effects is_mktmp w)) # pre)"
proof -
  from launch_new_fresh [OF plat exe]
  obtain s3 w6 pre where d:
    "launch_new (Runner opts) w = (case waitUntilReady s3 w6 of
                    (Inl e, w7) \<Rightarrow> (Inl e, s3, w7)
                  | (Inr u, w7) \<Rightarrow> (Inr This, s3, w7))"
    "chromeProcess s3 = Some (count_effects is_spawn w)"
    "tmpDirandPidFileReady s3"
    "chromeDataDir s3 = Some (tmp_dir w (count_effects is_mktmp w))"
    "w6 = w\<lparr>sigint_listeners := sigint_listeners w + 1,
              close_listeners := close_listeners w @ [(count_effects is_spawn w, ExitWatcher)],
              trace := trace w @ MakeTmpDir (tmp_dir w (count_effects is_mktmp w)) # pre\<rparr>"
    "filter is_probe pre = []" "sum_list (map delay_ms pre) = 0"
    "filter is_teardown pre = []" "filter is_mktmp pre = []"
    "length (filter is_open pre) = 3" "length (filter is_spawn pre) = 1"
    by blast
  have r: "fst (launch_new (Runner opts) w) = map_sum id (\<lambda>u. This) (fst (waitUntilReady s3 w6))"
    "fst (snd (launch_new (Runner opts) w)) = s3"
    "snd (snd (launch_new (Runner opts) w)) = snd (waitUntilReady s3 w6)"
    unfolding d(1) by (simp_all split: prod.splits sum.splits)
  have c: "probe_outcome w6 = probe_outcome w"
    "close_listeners w6 = close_listeners w @ [(count_effects is_spawn w, ExitWatcher)]"
    "count_effects is_probe w6 = count_effects is_probe w"
    "total_delay w6 = total_delay w"
    "count_effects is_teardown w6 = count_effects is_teardown w"
    "count_effects is_mktmp w6 = count_effects is_mktmp w + 1"
    "count_effects is_open w6 = count_effects is_open w + 3"
    "count_effects is_spawn w6 = count_effects is_spawn w + 1"
    "\<exists>pre. trace w6 = trace w @ MakeTmpDir (tmp_dir w (count_effects is_mktmp w)) # pre"
    using d(6-11) by (simp_all add: d(5) count_effects_def total_delay_def)
  from r d(2-4) c show ?thesis by blast
qed

subsection \<open>Readiness polling\<close>

text \<open>
  Claim C2, as the code has it. \<open>waitUntilReady\<close> makes at least one and at most 11
  probes, and sleeps 500 ms between two consecutive probes, not after the last one.
  For a first \<open>launch\<close> with no port given, on a machine where Chrome can start: when
  the probe fails ten times and succeeds the eleventh time, \<open>launch\<close> resolves to the
  session after 11 probes and ten sleeps, 5000 ms in all; when the probe fails eleven
  times, \<open>launch\<close> rejects with the probe's failure after 11 probes and, again, ten
  sleeps, 5000 ms in all.
\<close>

theorem readiness_polling:
  "count_effects is_probe w < count_effects is_probe (snd (waitUntilReady s w))
   \<and> count_effects is_probe (snd (waitUntilReady s w)) \<le> count_effects is_probe w + 11
   \<and> total_delay (snd (waitUntilReady s w)) + 500 =
       total_delay w + 500 * (count_effects is_probe (snd (waitUntilReady s w)) - count_effects is_probe w)
   \<and> (platform w \<in> set SUPPORTED_PLATFORMS
        \<and> (truthy_str (opt_chromePath opts) \<or> installations w \<noteq> [])
        \<and> \<not> truthy_nat (opt_port opts) \<longrightarrow>
        ((\<forall>i<10. \<not> probe_outcome w (count_effects is_probe w + i))
           \<and> probe_outcome w (count_effects is_probe w + 10) \<longrightarrow>
           fst (launch (Runner opts) w) = Inr This
           \<and> count_effects is_probe (snd (snd (launch (Runner opts) w))) = count_effects is_probe w + 11
           \<and> total_delay (snd (snd (launch (Runner opts) w))) = total_delay w + 5000)
        \<and> ((\<forall>i\<le>10. \<not> probe_outcome w (count_effects is_probe w + i)) \<longrightarrow>
           fst (launch (Runner opts) w) = Inl ProbeRejected
           \<and> count_effects is_probe (snd (snd (launch (Runner opts) w))) = count_effects is_probe w + 11
           \<and> total_delay (snd (snd (launch (Runner opts) w))) = total_delay w + 5000))"
proof -
  have budget: "count_effects is_probe w < count_effects is_probe (snd (waitUntilReady s w))
   \<and> count_effects is_probe (snd (waitUntilReady s w)) \<le> count_effects is_probe w + 11
   \<and> total_delay (snd (waitUntilReady s w)) + 500 =
       total_delay w + 500 * (count_effects is_probe (snd (waitUntilReady s w)) - count_effects is_probe w)"
    by (rule waitUntilReady_budget)
  have first: "platform w \<in> set SUPPORTED_PLATFORMS
        \<and> (truthy_str (opt_chromePath opts) \<or> installations w \<noteq> [])
        \<and> \<not> truthy_nat (opt_port opts) \<longrightarrow>
        ((\<forall>i<10. \<not> probe_outcome w (count_effects is_probe w + i))
           \<and> probe_outcome w (count_effects is_probe w + 10) \<longrightarrow>
           fst (launch (Runner opts) w) = Inr This
           \<and> count_effects is_probe (snd (snd (launch (Runner opts) w))) = count_effects is_probe w + 11
           \<and> total_delay (snd (snd (launch (Runner opts) w))) = total_delay w + 5000)
        \<and> ((\<forall>i\<le>10. \<not> probe_outcome w (count_effects is_probe w + i)) \<longrightarrow>
           fst (launch (Runner opts) w) = Inl ProbeRejected
           \<and> count_effects is_probe (snd (snd (launch (Runner opts) w))) = count_effects is_probe w + 11
           \<and> total_delay (snd (snd (launch (Runner opts) w))) = total_delay w + 5000)"
  proof (intro impI, elim conjE)
    assume plat: "platform w \<in> set SUPPORTED_PLATFORMS"
      and exe: "truthy_str (opt_chromePath opts) \<or> installations w \<noteq> []"
      and noport: "\<not> truthy_nat (opt_port opts)"
    have l: "launch (Runner opts) w = launch_new (Runner opts) w"
      using noport by (simp add: launch_def Runner_def)
    from launch_new_fresh_outcome [OF plat exe]
    obtain s3 w6 where d:
      "fst (launch_new (Runner opts) w) = map_sum id (\<lambda>u. This) (fst (waitUntilReady s3 w6))"
      "snd (snd (launch_new (Runner opts) w)) = snd (waitUntilReady s3 w6)"
      "probe_outcome w6 = probe_outcome w"
      "count_effects is_probe w6 = count_effects is_probe w"
      "total_delay w6 = total_delay w"
      by blast
    show "((\<forall>i<10. \<not> probe_outcome w (count_effects is_probe w + i))
           \<and> probe_outcome w (count_effects is_probe w + 10) \<longrightarrow>
           fst (launch (Runner opts) w) = Inr This
           \<and> count_effects is_probe (snd (snd (launch (Runner opts) w))) = count_effects is_probe w + 11
           \<and> total_delay (snd (snd (launch (Runner opts) w))) = total_delay w + 5000)
        \<and> ((\<forall>i\<le>10. \<not> probe_outcome w (count_effects is_probe w + i)) \<longrightarrow>
           fst (launch (Runner opts) w) = Inl ProbeRejected
           \<and> count_effects is_probe (snd (snd (launch (Runner opts) w))) = count_effects is_probe w + 11
           \<and> total_delay (snd (snd (launch (Runner opts) w))) = total_delay w + 5000)"
    proof (intro conjI impI)
      assume a: "(\<forall>i<10. \<not> probe_outcome w (count_effects is_probe w + i))
           \<and> probe_outcome w (count_effects is_probe w + 10)"
      then have a6: "\<forall>i<10. \<not> probe_outcome w6 (count_effects is_probe w6 + i)"
        "probe_outcome w6 (count_effects is_probe w6 + 10)"
        by (simp_all add: d(3,4))
      from waitUntilReady_resolves_counts [OF a6, of s3]
      show "fst (launch (Runner opts) w) = Inr This"
        "count_effects is_probe (snd (snd (launch (Runner opts) w))) = count_effects is_probe w + 11"
        "total_delay (snd (snd (launch (Runner opts) w))) = total_delay w + 5000"
        by (simp_all add: l d)
    next
      assume a: "\<forall>i\<le>10. \<not> probe_outcome w (count_effects is_probe w + i)"
      then have a6: "\<forall>i\<le>10. \<not> probe_outcome w6 (count_effects is_probe w6 + i)"
        by (simp add: d(3,4))
      from waitUntilReady_rejects_counts [OF a6, of s3]
      show "fst (launch (Runner opts) w) = Inl ProbeRejected"
        "count_effects is_probe (snd (snd (launch (Runner opts) w))) = count_effects is_probe w + 11"
        "total_delay (snd (snd (launch (Runner opts) w))) = total_delay w + 5000"
        by (simp_all add: l d)
    qed
  qed
  from budget first show ?thesis by blast
qed

theorem readiness_polling_witness:
  "platform (example_world ''linux'' (\<lambda>k. 10 \<le> k)) \<in> set SUPPORTED_PLATFORMS
   \<and> truthy_str (opt_chromePath (example_options None None))
   \<and> \<not> truthy_nat (opt_port (example_options None None))
   \<and> probe_outcome (example_world ''linux'' (\<lambda>k. 10 \<le> k))
          (count_effects is_probe (example_world ''linux'' (\<lambda>k. 10 \<le> k)) + 10)
   \<and> fst (launch (Runner (example_options None None)) (example_world ''linux'' (\<lambda>k. 10 \<le> k))) = Inr This
   \<and> total_delay (snd (snd (launch (Runner (example_options None None))
        (example_world ''linux'' (\<lambda>k. 10 \<le> k))))) = 5000
   \<and> fst (launch (Runner (example_options None None)) (example_world ''linux'' (\<lambda>k. False))) =
        Inl ProbeRejected
   \<and> count_effects is_probe (snd (snd (launch (Runner (example_options None None))
        (example_world ''linux'' (\<lambda>k. False))))) = 11"
proof -
  have e: "platform (example_world ''linux'' p) \<in> set SUPPORTED_PLATFORMS"
    "truthy_str (opt_chromePath (example_options None None))"
    "\<not> truthy_nat (opt_port (example_options None None))"
    "count_effects is_probe (example_world ''linux'' p) = 0"
    "total_delay (example_world ''linux'' p) = 0"
    "probe_outcome (example_world ''linux'' p) = p" for p
    by (simp_all add: example_world_def example_options_def SUPPORTED_PLATFORMS_def
        truthy_str_def truthy_nat_def count_effects_def total_delay_def)
  from readiness_polling [of "example_world ''linux'' (\<lambda>k. 10 \<le> k)" _ "example_options None None"]
    readiness_polling [of "example_world ''linux'' (\<lambda>k. False)" _ "example_options None None"]
  show ?thesis by (simp add: e)
qed

text \<open>When every probe fails, the sleeps of \<open>launch\<close> add up to 5000 ms, not 5500 ms:
  the eleventh failure rejects without a further sleep.\<close>

theorem readiness_delay_counterexample:
  "fst (launch (Runner (example_options None None)) (example_world ''linux'' (\<lambda>k. False))) =
      Inl ProbeRejected
   \<and> count_effects is_probe (snd (snd (launch (Runner (example_options None None))
        (example_world ''linux'' (\<lambda>k. False))))) = 11
   \<and> total_delay (snd (snd (launch (Runner (example_options None None))
        (example_world ''linux'' (\<lambda>k. False))))) = 5000
   \<and> total_delay (snd (snd (launch (Runner (example_options None None))
        (example_world ''linux'' (\<lambda>k. False))))) \<noteq> 5500"
  by (simp add: eval_defs poll.simps total_delay_def)

lemma spawn_new_state:
  "chromeProcess s = None \<Longrightarrow>
   chromeProcess (fst (snd (spawn s w))) = Some (count_effects is_spawn w)"
  by (simp add: spawn_unfold split: option.splits)

subsection \<open>Adopting a reachable port, or launching anew\<close>

text \<open>
  Claim C3. With a truthy port whose probe succeeds, \<open>launch\<close> returns the probe's
  value with the object unchanged and nothing but that one probe done: no workspace, no
  child. With a truthy port whose probe fails, \<open>launch\<close> logs a warning and continues
  with the rest of \<open>launch\<close> (lines 49 to 63), the probe made once. For a new session,
  on a machine where Chrome can start, the first three calls to the outside are then
  the probe, the warning and the creation of the workspace directory, and the whole
  \<open>launch\<close> makes one directory, opens three files and starts one child.
\<close>

theorem launch_adopt_or_create:
  "(truthy_nat (port s) \<and> probe_outcome w (count_effects is_probe w) \<longrightarrow>
      launch s w = (Inr ProbeValue, s, emit (IsPortOpen (port s)) w))
   \<and> (truthy_nat (port s) \<and> \<not> probe_outcome w (count_effects is_probe w) \<longrightarrow>
      launch s w =
        launch_new s
          (emit (Logger Warn (''no chrome found on port '' @ template_nat (port s)
                   @ '', launching a new Chrome.''))
             (emit (IsPortOpen (port s)) w)))
   \<and> (truthy_nat (opt_port opts) \<and> \<not> probe_outcome w (count_effects is_probe w)
        \<and> platform w \<in> set SUPPORTED_PLATFORMS
        \<and> (truthy_str (opt_chromePath opts) \<or> installations w \<noteq> []) \<longrightarrow>
      take 3 (effects_since w (snd (snd (launch (Runner opts) w)))) =
        [IsPortOpen (opt_port opts),
         Logger Warn (''no chrome found on port '' @ template_nat (opt_port opts)
           @ '', launching a new Chrome.''),
         MakeTmpDir (tmp_dir w (count_effects is_mktmp w))]
      \<and> count_effects is_mktmp (snd (snd (launch (Runner opts) w))) = count_effects is_mktmp w + 1
      \<and> count_effects is_open (snd (snd (launch (Runner opts) w))) = count_effects is_open w + 3
      \<and> count_effects is_spawn (snd (snd (launch (Runner opts) w))) = count_effects is_spawn w + 1
      \<and> chromeProcess (fst (snd (launch (Runner opts) w))) = Some (count_effects is_spawn w))"
proof (intro conjI impI; (elim conjE)?)
  assume "truthy_nat (port s)" "probe_outcome w (count_effects is_probe w)"
  then show "launch s w = (Inr ProbeValue, s, emit (IsPortOpen (port s)) w)"
    by (simp add: launch_def isDebugReady_def)
next
  assume "truthy_nat (port s)" "\<not> probe_outcome w (count_effects is_probe w)"
  then show "launch s w =
        launch_new s
          (emit (Logger Warn (''no chrome found on port '' @ template_nat (port s)
                   @ '', launching a new Chrome.''))
             (emit (IsPortOpen (port s)) w))"
    by (simp add: launch_def isDebugReady_def)
next
  assume port: "truthy_nat (opt_port opts)"
    and fail: "\<not> probe_outcome w (count_effects is_probe w)"
    and plat: "platform w \<in> set SUPPORTED_PLATFORMS"
    and exe: "truthy_str (opt_chromePath opts) \<or> installations w \<noteq> []"
  let ?warn = "Logger Warn (''no chrome found on port '' @ template_nat (opt_port opts)
           @ '', launching a new Chrome.'')"
  let ?w1 = "emit ?warn (emit (IsPortOpen (opt_port opts)) w)"
  let ?dir = "tmp_dir w (count_effects is_mktmp w)"
  have l: "launch (Runner opts) w = launch_new (Runner opts) ?w1"
    using port fail by (simp add: launch_def isDebugReady_def Runner_def)
  have plat1: "platform ?w1 \<in> set SUPPORTED_PLATFORMS"
    and exe1: "truthy_str (opt_chromePath opts) \<or> installations ?w1 \<noteq> []"
    using plat exe by simp_all
  from launch_new_fresh_outcome [OF plat1 exe1]
  obtain s3 w6 pre where d:
    "fst (snd (launch_new (Runner opts) ?w1)) = s3"
    "snd (snd (launch_new (Runner opts) ?w1)) = snd (waitUntilReady s3 w6)"
    "chromeProcess s3 = Some (count_effects is_spawn ?w1)"
    "count_effects is_mktmp w6 = count_effects is_mktmp ?w1 + 1"
    "count_effects is_open w6 = count_effects is_open ?w1 + 3"
    "count_effects is_spawn w6 = count_effects is_spawn ?w1 + 1"
    "trace w6 = trace ?w1 @ MakeTmpDir (tmp_dir ?w1 (count_effects is_mktmp ?w1)) # pre"
    by blast
  obtain ext where ext: "trace (snd (waitUntilReady s3 w6)) = trace w6 @ ext"
    using waitUntilReady_appends by blast
  have "trace (snd (snd (launch (Runner opts) w))) =
      trace w @ [IsPortOpen (opt_port opts), ?warn, MakeTmpDir ?dir] @ pre @ ext"
    unfolding l d(2) ext d(7) by simp
  then show "take 3 (effects_since w (snd (snd (launch (Runner opts) w)))) =
      [IsPortOpen (opt_port opts), ?warn, MakeTmpDir ?dir]"
    by (simp add: effects_since_def)
  show "count_effects is_mktmp (snd (snd (launch (Runner opts) w))) = count_effects is_mktmp w + 1"
    "count_effects is_open (snd (snd (launch (Runner opts) w))) = count_effects is_open w + 3"
    "count_effects is_spawn (snd (snd (launch (Runner opts) w))) = count_effects is_spawn w + 1"
    "chromeProcess (fst (snd (launch (Runner opts) w))) = Some (count_effects is_spawn w)"
    unfolding l d(1,2) using d(3-6) by simp_all
qed

theorem launch_adopt_or_create_witness:
  "truthy_nat (port (Runner (example_options (Some 9222) None)))
   \<and> probe_outcome (example_world ''linux'' (\<lambda>k. True))
        (count_effects is_probe (example_world ''linux'' (\<lambda>k. True)))
   \<and> trace (snd (snd (launch (Runner (example_options (Some 9222) None))
        (example_world ''linux'' (\<lambda>k. True))))) = [IsPortOpen (Some 9222)]
   \<and> \<not> probe_outcome (example_world ''linux'' (\<lambda>k. 0 < k))
        (count_effects is_probe (example_world ''linux'' (\<lambda>k. 0 < k)))
   \<and> platform (example_world ''linux'' (\<lambda>k. 0 < k)) \<in> set SUPPORTED_PLATFORMS
   \<and> truthy_str (opt_chromePath (example_options (Some 9222) None))
   \<and> take 3 (effects_since (example_world ''linux'' (\<lambda>k. 0 < k))
        (snd (snd (launch (Runner (example_options (Some 9222) None))
          (example_world ''linux'' (\<lambda>k. 0 < k)))))) =
       [IsPortOpen (Some 9222),
        Logger Warn ''no chrome found on port 9222, launching a new Chrome.'',
        MakeTmpDir ''/tmp/chrome0'']
   \<and> count_effects is_spawn (snd (snd (launch (Runner (example_options (Some 9222) None))
        (example_world ''linux'' (\<lambda>k. 0 < k))))) = 1"
proof -
  have e: "platform (example_world ''linux'' p) \<in> set SUPPORTED_PLATFORMS"
    "truthy_str (opt_chromePath (example_options (Some 9222) None))"
    "truthy_nat (opt_port (example_options (Some 9222) None))"
    "opt_port (example_options (Some 9222) None) = Some 9222"
    "port (Runner (example_options (Some 9222) None)) = Some 9222"
    "count_effects P (example_world ''linux'' p) = 0"
    "trace (example_world ''linux'' p) = []"
    "probe_outcome (example_world ''linux'' p) = p"
    "tmp_dir (example_world ''linux'' p) 0 = ''/tmp/chrome0''" for p P
    by (simp_all add: example_world_def example_options_def SUPPORTED_PLATFORMS_def
        truthy_str_def truthy_nat_def count_effects_def Runner_def show_nat_small)
  from launch_adopt_or_create [of "Runner (example_options (Some 9222) None)"
      "example_world ''linux'' (\<lambda>k. True)" "example_options (Some 9222) None", THEN conjunct1]
    launch_adopt_or_create [of "Runner (example_options (Some 9222) None)"
      "example_world ''linux'' (\<lambda>k. 0 < k)" "example_options (Some 9222) None",
      THEN conjunct2, THEN conjunct2]
  show ?thesis by (simp add: e template_nat_def truthy_nat_def show_nat_9222)
qed

subsection \<open>A readiness timeout leaves the child behind\<close>

text \<open>
  Claim C9. When \<open>spawn\<close> starts a child and the eleven probes of \<open>waitUntilReady\<close>
  all fail, \<open>spawn\<close> rejects, yet \<open>chromeProcess\<close> holds the new child, so the object
  is not what it was before; one child was started, and no kill request, no closing of
  a file and no removal of the workspace took place. The same holds for the first
  \<open>launch\<close> of a new session (whose own probe of a given port fails as well): it
  rejects with the child tracked, the workspace guard set and nothing torn down.
\<close>

theorem readiness_timeout_leaves_child:
  "(chromeProcess s = None \<and> pidFile s \<noteq> None
      \<and> (\<forall>i\<le>10. \<not> probe_outcome w (count_effects is_probe w + i)) \<longrightarrow>
      fst (spawn s w) = Inl ProbeRejected
      \<and> chromeProcess (fst (snd (spawn s w))) = Some (count_effects is_spawn w)
      \<and> fst (snd (spawn s w)) \<noteq> s
      \<and> count_effects is_spawn (snd (snd (spawn s w))) = count_effects is_spawn w + 1
      \<and> count_effects is_teardown (snd (snd (spawn s w))) = count_effects is_teardown w)
   \<and> (platform w \<in> set SUPPORTED_PLATFORMS
      \<and> (truthy_str (opt_chromePath opts) \<or> installations w \<noteq> [])
      \<and> (\<forall>i\<le>11. \<not> probe_outcome w (count_effects is_probe w + i)) \<longrightarrow>
      fst (launch (Runner opts) w) = Inl ProbeRejected
      \<and> chromeProcess (fst (snd (launch (Runner opts) w))) = Some (count_effects is_spawn w)
      \<and> tmpDirandPidFileReady (fst (snd (launch (Runner opts) w)))
      \<and> count_effects is_spawn (snd (snd (launch (Runner opts) w))) = count_effects is_spawn w + 1
      \<and> count_effects is_teardown (snd (snd (launch (Runner opts) w))) = count_effects is_teardown w)"
proof (intro conjI impI; (elim conjE)?)
  assume none: "chromeProcess s = None" and pf: "pidFile s \<noteq> None"
    and fail: "\<forall>i\<le>10. \<not> probe_outcome w (count_effects is_probe w + i)"
  from pf obtain f where f: "pidFile s = Some f" by auto
  from spawn_new_decomp [OF none f, of w]
  obtain s2 w6 pre where d:
    "spawn s w = (case waitUntilReady s2 w6 of
                    (Inl e, w7) \<Rightarrow> (Inl e, s2, w7)
                  | (Inr u, w7) \<Rightarrow> (Inr None, s2, w7))"
    "w6 = w\<lparr>sigint_listeners := sigint_listeners w + 1,
              close_listeners := close_listeners w @ [(count_effects is_spawn w, ExitWatcher)],
              trace := trace w @ pre\<rparr>"
    "filter is_probe pre = []"
    by blast
  have a6: "\<forall>i\<le>10. \<not> probe_outcome w6 (count_effects is_probe w6 + i)"
    using fail d(3) by (simp add: d(2) count_effects_def)
  obtain r7 w7 where wr: "waitUntilReady s2 w6 = (r7, w7)"
    by (cases "waitUntilReady s2 w6") auto
  with waitUntilReady_rejects_counts(1) [OF a6, of s2] have "r7 = Inl ProbeRejected" by simp
  then show "fst (spawn s w) = Inl ProbeRejected"
    unfolding d(1) wr by simp
  show c: "chromeProcess (fst (snd (spawn s w))) = Some (count_effects is_spawn w)"
    using spawn_new_state [OF none, of w] by simp
  show "fst (snd (spawn s w)) \<noteq> s" using c none by auto
  show "count_effects is_spawn (snd (snd (spawn s w))) = count_effects is_spawn w + 1"
    using none by (simp add: spawn_registers)
  show "count_effects is_teardown (snd (snd (spawn s w))) = count_effects is_teardown w"
    by (rule spawn_count) (simp_all add: wait_effect_foreign)
next
  assume plat: "platform w \<in> set SUPPORTED_PLATFORMS"
    and exe: "truthy_str (opt_chromePath opts) \<or> installations w \<noteq> []"
    and fail: "\<forall>i\<le>11. \<not> probe_outcome w (count_effects is_probe w + i)"
  let ?warn = "Logger Warn (''no chrome found on port '' @ template_nat (opt_port opts)
           @ '', launching a new Chrome.'')"
  let ?w1 = "if truthy_nat (opt_port opts) then emit ?warn (emit (IsPortOpen (opt_port opts)) w) else w"
  from fail have f0: "\<not> probe_outcome w (count_effects is_probe w)" by force
  have l: "launch (Runner opts) w = launch_new (Runner opts) ?w1"
    using f0 by (simp add: launch_def isDebugReady_def Runner_def)
  have plat1: "platform ?w1 \<in> set SUPPORTED_PLATFORMS"
    and exe1: "truthy_str (opt_chromePath opts) \<or> installations ?w1 \<noteq> []"
    using plat exe by simp_all
  have w1: "count_effects is_spawn ?w1 = count_effects is_spawn w"
    "count_effects is_teardown ?w1 = count_effects is_teardown w"
    "probe_outcome ?w1 = probe_outcome w"
    "count_effects is_probe ?w1 = count_effects is_probe w + (if truthy_nat (opt_port opts) then 1 else 0)"
    by simp_all
  from launch_new_fresh_outcome [OF plat1 exe1]
  obtain s3 w6 where d:
    "fst (launch_new (Runner opts) ?w1) = map_sum id (\<lambda>u. This) (fst (waitUntilReady s3 w6))"
    "fst (snd (launch_new (Runner opts) ?w1)) = s3"
    "snd (snd (launch_new (Runner opts) ?w1)) = snd (waitUntilReady s3 w6)"
    "chromeProcess s3 = Some (count_effects is_spawn ?w1)"
    "tmpDirandPidFileReady s3"
    "probe_outcome w6 = probe_outcome ?w1"
    "count_effects is_probe w6 = count_effects is_probe ?w1"
    "count_effects is_teardown w6 = count_effects is_teardown ?w1"
    "count_effects is_spawn w6 = count_effects is_spawn ?w1 + 1"
    by blast
  have a6: "\<forall>i\<le>10. \<not> probe_outcome w6 (count_effects is_probe w6 + i)"
  proof (intro allI impI)
    fix i :: nat assume i: "i \<le> 10"
    then have "i \<le> 11" "Suc i \<le> 11" by simp_all
    with fail have "\<not> probe_outcome w (count_effects is_probe w + i)"
      "\<not> probe_outcome w (count_effects is_probe w + Suc i)" by blast+
    then show "\<not> probe_outcome w6 (count_effects is_probe w6 + i)"
      unfolding d(6,7) w1(3,4) by (simp split: if_splits)
  qed
  show "fst (launch (Runner opts) w) = Inl ProbeRejected"
    unfolding l d(1) using waitUntilReady_rejects_counts(1) [OF a6, of s3] by simp
  show "chromeProcess (fst (snd (launch (Runner opts) w))) = Some (count_effects is_spawn w)"
    unfolding l d(2) d(4) by (rule arg_cong [OF w1(1)])
  show "tmpDirandPidFileReady (fst (snd (launch (Runner opts) w)))"
    unfolding l d(2) by (rule d(5))
  show "count_effects is_spawn (snd (snd (launch (Runner opts) w))) = count_effects is_spawn w + 1"
    unfolding l d(3) waitUntilReady_counts d(9) w1(1) by (rule refl)
  show "count_effects is_teardown (snd (snd (launch (Runner opts) w))) = count_effects is_teardown w"
    unfolding l d(3) waitUntilReady_counts d(8) w1(2) by (rule refl)
qed

theorem readiness_timeout_leaves_child_witness:
  "chromeProcess ((fst example_session)\<lparr>chromeProcess := None\<rparr>) = None
   \<and> pidFile ((fst example_session)\<lparr>chromeProcess := None\<rparr>) \<noteq> None
   \<and> fst (spawn ((fst example_session)\<lparr>chromeProcess := None\<rparr>)
        ((snd example_session)\<lparr>probe_outcome := (\<lambda>k. False)\<rparr>)) = Inl ProbeRejected
   \<and> chromeProcess (fst (snd (spawn ((fst example_session)\<lparr>chromeProcess := None\<rparr>)
        ((snd example_session)\<lparr>probe_outcome := (\<lambda>k. False)\<rparr>)))) = Some 1
   \<and> platform (example_world ''linux'' (\<lambda>k. False)) \<in> set SUPPORTED_PLATFORMS
   \<and> truthy_str (opt_chromePath (example_options None None))
   \<and> fst (launch (Runner (example_options None None)) (example_world ''linux'' (\<lambda>k. False))) =
        Inl ProbeRejected
   \<and> chromeProcess (fst (snd (launch (Runner (example_options None None))
        (example_world ''linux'' (\<lambda>k. False))))) = Some 0
   \<and> count_effects is_teardown (snd (snd (launch (Runner (example_options None None))
        (example_world ''linux'' (\<lambda>k. False))))) = 0"
proof -
  have e: "platform (example_world ''linux'' p) \<in> set SUPPORTED_PLATFORMS"
    "truthy_str (opt_chromePath (example_options None None))"
    "count_effects P (example_world ''linux'' p) = 0"
    "probe_outcome (example_world ''linux'' p) = p" for p P
    by (simp_all add: example_world_def example_options_def SUPPORTED_PLATFORMS_def
        truthy_str_def count_effects_def)
  have x: "chromeProcess ((fst example_session)\<lparr>chromeProcess := None\<rparr>) = None"
    "pidFile ((fst example_session)\<lparr>chromeProcess := None\<rparr>) \<noteq> None"
    "probe_outcome ((snd example_session)\<lparr>probe_outcome := (\<lambda>k. False)\<rparr>) = (\<lambda>k. False)"
    "count_effects is_spawn ((snd example_session)\<lparr>probe_outcome := (\<lambda>k. False)\<rparr>) = 1"
    by (simp_all add: example_session_eq count_effects_def)
  have A: "fst (spawn ((fst example_session)\<lparr>chromeProcess := None\<rparr>)
        ((snd example_session)\<lparr>probe_outcome := (\<lambda>k. False)\<rparr>)) = Inl ProbeRejected
     \<and> chromeProcess (fst (snd (spawn ((fst example_session)\<lparr>chromeProcess := None\<rparr>)
        ((snd example_session)\<lparr>probe_outcome := (\<lambda>k. False)\<rparr>)))) = Some 1"
    using readiness_timeout_leaves_child [of "(fst example_session)\<lparr>chromeProcess := None\<rparr>"
      "(snd example_session)\<lparr>probe_outcome := (\<lambda>k. False)\<rparr>", THEN conjunct1] x
    by simp
  have B: "fst (launch (Runner (example_options None None)) (example_world ''linux'' (\<lambda>k. False))) =
        Inl ProbeRejected
     \<and> chromeProcess (fst (snd (launch (Runner (example_options None None))
        (example_world ''linux'' (\<lambda>k. False))))) = Some 0
     \<and> count_effects is_teardown (snd (snd (launch (Runner (example_options None None))
        (example_world ''linux'' (\<lambda>k. False))))) = 0"
    using readiness_timeout_leaves_child [of _ "example_world ''linux'' (\<lambda>k. False)"
      "example_options None None", THEN conjunct2] e
    by simp
  from A B e x show ?thesis by simp
qed

subsection \<open>After \<open>kill\<close>: the workspace guard stays set\<close>

lemma kill_tracked:
  "chromeProcess s = Some c \<Longrightarrow>
   \<exists>ext. snd (snd (kill s w)) =
      w\<lparr>close_listeners := close_listeners w @ [(c, KillWaiter)], trace := trace w @ ext\<rparr>
    \<and> filter is_probe ext = []"
  by (cases "kill_error w")
     (auto simp add: kill_def Let_def emit_def isWindows_def)

lemma destroyTmp_trace:
  "\<exists>cl. trace (snd (destroyTmp s w)) = trace w @ cl @ [RimrafSync (chromeDataDir s)]"
  by (cases "chromeOutFile s"; cases "chromeErrorFile s")
     (auto simp add: destroyTmp_def Let_def)

lemma run_listener_appends:
  "\<exists>ext. trace (snd (run_listener l sw)) = trace (snd sw) @ ext"
proof (cases sw)
  case (Pair s w)
  show ?thesis
  proof (cases l)
    case ExitWatcher
    with Pair show ?thesis by simp
  next
    case KillWaiter
    obtain cl where "trace (snd (destroyTmp s w)) = trace w @ cl @ [RimrafSync (chromeDataDir s)]"
      using destroyTmp_trace by blast
    with Pair KillWaiter show ?thesis by (simp add: case_prod_unfold)
  qed
qed

lemma fold_listener_appends:
  "\<exists>ext. trace (snd (fold run_listener ls sw)) = trace (snd sw) @ ext"
proof (induction ls arbitrary: sw)
  case Nil
  then show ?case by simp
next
  case (Cons l ls)
  obtain e1 where e1: "trace (snd (run_listener l sw)) = trace (snd sw) @ e1"
    using run_listener_appends by blast
  obtain e2 where "trace (snd (fold run_listener ls (run_listener l sw))) =
      trace (snd (run_listener l sw)) @ e2"
    using Cons.IH by blast
  with e1 show ?case by simp
qed

lemma probe_outcome_keeps [simp]:
  "probe_outcome (snd (destroyTmp s w)) = probe_outcome w"
  "probe_outcome (snd (snd (kill s w))) = probe_outcome w"
  by (simp_all add: destroyTmp_def kill_def Let_def case_prod_unfold split: option.splits)

lemma run_listener_probe_outcome [simp]:
  "probe_outcome (snd (run_listener l sw)) = probe_outcome (snd sw)"
  by (cases l; cases sw; simp add: case_prod_unfold)

lemma fold_probe_outcome [simp]:
  "probe_outcome (snd (fold run_listener ls sw)) = probe_outcome (snd sw)"
  by (induction ls arbitrary: sw) simp_all

lemma on_close_probe_outcome [simp]:
  "probe_outcome (snd (on_close c s w)) = probe_outcome w"
  by (simp add: on_close_def)

text \<open>\<open>kill\<close> on a tracked child followed by the child's \<open>close\<close> event: the kill
  waiter runs last, so the trace ends with the removal of the workspace and the
  resolution of the promise.\<close>

lemma kill_then_close:
  assumes c: "chromeProcess s = Some c"
  shows "\<exists>mid. trace (snd (on_close c (fst (snd (kill s w))) (snd (snd (kill s w))))) =
      trace w @ mid @ [RimrafSync (chromeDataDir s), KillResolved]"
proof -
  let ?s1 = "fst (snd (kill s w))" and ?w1 = "snd (snd (kill s w))"
  obtain ext where k: "?w1 =
      w\<lparr>close_listeners := close_listeners w @ [(c, KillWaiter)], trace := trace w @ ext\<rparr>"
    using kill_tracked [OF c] by blast
  let ?ls = "map snd (filter (\<lambda>cl. fst cl = c) (close_listeners w))"
  let ?w1' = "?w1\<lparr>close_listeners := filter (\<lambda>cl. fst cl \<noteq> c) (close_listeners ?w1)\<rparr>"
  let ?mid = "fold run_listener ?ls (?s1, ?w1')"
  have oc: "on_close c ?s1 ?w1 = run_listener KillWaiter ?mid"
    by (simp add: on_close_def k)
  obtain e1 where e1: "trace (snd ?mid) = trace ?w1' @ e1"
    using fold_listener_appends [of ?ls "(?s1, ?w1')"] by auto
  obtain cl where cl: "trace (snd (destroyTmp (fst ?mid) (snd ?mid))) =
      trace (snd ?mid) @ cl @ [RimrafSync (chromeDataDir (fst ?mid))]"
    using destroyTmp_trace by blast
  have dd: "chromeDataDir (fst ?mid) = chromeDataDir s" by simp
  have t1: "trace ?w1' = trace w @ ext" by (simp add: k)
  have "trace (snd (on_close c ?s1 ?w1)) =
      trace w @ (ext @ e1 @ cl) @ [RimrafSync (chromeDataDir s), KillResolved]"
    unfolding oc
    by (cases ?mid) (use cl e1 t1 dd in \<open>simp add: case_prod_unfold\<close>)
  then show ?thesis by blast
qed

lemma kill_then_close_probes:
  "count_effects is_probe (snd (on_close c (fst (snd (kill s w))) (snd (snd (kill s w))))) =
     count_effects is_probe w"
proof -
  have "count_effects is_probe (snd (snd (kill s w))) = count_effects is_probe w"
    by (rule kill_count) simp_all
  moreover have "count_effects is_probe (snd (on_close c s' w')) = count_effects is_probe w'" for s' w'
    by (rule on_close_count) simp_all
  ultimately show ?thesis by simp
qed

text \<open>A \<open>launch\<close> on a prepared session that tracks no child and does not adopt a
  reachable port starts a child on the workspace path the session holds.\<close>

lemma launch_ready_spawns:
  assumes ready: "tmpDirandPidFileReady s" and none: "chromeProcess s = None"
    and pf: "pidFile s \<noteq> None" and path: "truthy_str (chromePath s)"
    and probe: "truthy_nat (port s) \<longrightarrow> \<not> probe_outcome w (count_effects is_probe w)"
  shows "\<exists>fl. SpawnChild (chromePath s) fl (chromeOutFile s) (chromeErrorFile s)
            (count_effects is_spawn w) \<in> set (effects_since w (snd (snd (launch s w))))
          \<and> ''--user-data-dir='' @ template_str (chromeDataDir s) \<in> set fl"
proof -
  let ?warn = "Logger Warn (''no chrome found on port '' @ template_nat (port s)
           @ '', launching a new Chrome.'')"
  let ?p0 = "if truthy_nat (port s) then [IsPortOpen (port s), ?warn] else []"
  let ?w1 = "w\<lparr>trace := trace w @ ?p0\<rparr>"
  have l: "launch s w = launch_new s ?w1"
    using probe by (simp add: launch_def isDebugReady_def emit_def)
  have n: "launch_new s ?w1 = (case spawn s ?w1 of
                  (Inl e, s3, w3) \<Rightarrow> (Inl e, s3, w3)
                | (Inr v, s3, w3) \<Rightarrow> (Inr This, s3, w3))"
    using ready path by (simp add: launch_new_def)
  from pf obtain f where f: "pidFile s = Some f" by auto
  from spawn_new_decomp [OF none f, of ?w1]
  obtain s2 w6 pre fl where d:
    "spawn s ?w1 = (case waitUntilReady s2 w6 of
                    (Inl e, w7) \<Rightarrow> (Inl e, s2, w7)
                  | (Inr u, w7) \<Rightarrow> (Inr None, s2, w7))"
    "w6 = ?w1\<lparr>sigint_listeners := sigint_listeners ?w1 + 1,
              close_listeners := close_listeners ?w1 @ [(count_effects is_spawn ?w1, ExitWatcher)],
              trace := trace ?w1 @ pre\<rparr>"
    "SpawnChild (chromePath s) fl (chromeOutFile s) (chromeErrorFile s)
        (count_effects is_spawn ?w1) \<in> set pre"
    "''--user-data-dir='' @ template_str (chromeDataDir s) \<in> set fl"
    by blast
  obtain ext where ext: "trace (snd (waitUntilReady s2 w6)) = trace w6 @ ext"
    using waitUntilReady_appends by blast
  have fin: "snd (snd (launch s w)) = snd (waitUntilReady s2 w6)"
    unfolding l n d(1) by (simp split: prod.splits sum.splits)
  have cnt: "count_effects is_spawn ?w1 = count_effects is_spawn w"
    by (simp add: count_effects_def)
  have t6: "trace w6 = trace w @ ?p0 @ pre"
    by (simp add: d(2))
  have "trace (snd (snd (launch s w))) = trace w6 @ ext"
    by (simp only: fin ext)
  then have "effects_since w (snd (snd (launch s w))) = ?p0 @ pre @ ext"
    by (simp add: t6 effects_since_def)
  with d(3,4) cnt show ?thesis by auto
qed

text \<open>
  Claim C10. \<open>kill\<close> on a session with a tracked child, followed by the child's
  \<open>close\<close> event, removes the workspace directory and resolves, and leaves
  \<open>tmpDirandPidFileReady\<close>, the port, the executable path and the workspace path as
  they were, with no child tracked. A later \<open>launch\<close> on that session therefore makes
  no directory and opens no file, keeps the old workspace path, and, unless it adopts
  a reachable port, starts a child whose \<open>--user-data-dir\<close> flag is that removed
  path.
\<close>

theorem kill_keeps_workspace_guard:
  "chromeProcess s = Some c \<longrightarrow>
     (let s1 = fst (snd (kill s w)); w1 = snd (snd (kill s w));
          s2 = fst (on_close c s1 w1); w2 = snd (on_close c s1 w1);
          s3 = fst (snd (launch s2 w2)); w3 = snd (snd (launch s2 w2))
      in tmpDirandPidFileReady s2 = tmpDirandPidFileReady s
         \<and> port s2 = port s \<and> chromePath s2 = chromePath s
         \<and> chromeDataDir s2 = chromeDataDir s
         \<and> chromeProcess s2 = None
         \<and> (\<exists>mid. effects_since w w2 = mid @ [RimrafSync (chromeDataDir s), KillResolved])
         \<and> (tmpDirandPidFileReady s \<longrightarrow>
              count_effects is_mktmp w3 = count_effects is_mktmp w2
              \<and> count_effects is_open w3 = count_effects is_open w2
              \<and> tmpDirandPidFileReady s3 \<and> chromeDataDir s3 = chromeDataDir s)
         \<and> (tmpDirandPidFileReady s \<and> pidFile s \<noteq> None \<and> truthy_str (chromePath s)
              \<and> (truthy_nat (port s) \<longrightarrow> \<not> probe_outcome w (count_effects is_probe w)) \<longrightarrow>
              (\<exists>fl. SpawnChild (chromePath s) fl (chromeOutFile s2) (chromeErrorFile s2)
                       (count_effects is_spawn w2) \<in> set (effects_since w2 w3)
                    \<and> ''--user-data-dir='' @ template_str (chromeDataDir s) \<in> set fl)))"
proof
  assume c: "chromeProcess s = Some c"
  let ?s1 = "fst (snd (kill s w))" and ?w1 = "snd (snd (kill s w))"
  let ?s2 = "fst (on_close c ?s1 ?w1)" and ?w2 = "snd (on_close c ?s1 ?w1)"
  let ?s3 = "fst (snd (launch ?s2 ?w2))" and ?w3 = "snd (snd (launch ?s2 ?w2))"
  have keep: "tmpDirandPidFileReady ?s2 = tmpDirandPidFileReady s" "port ?s2 = port s"
    "chromePath ?s2 = chromePath s" "chromeDataDir ?s2 = chromeDataDir s" "pidFile ?s2 = pidFile s"
    by simp_all
  have off: "\<not> restartUnexpectedChrome ?s1" by simp
  have none: "chromeProcess ?s2 = None"
    using on_close_shutdown(3) [OF off, of c ?w1] by simp
  obtain mid where "trace ?w2 = trace w @ mid @ [RimrafSync (chromeDataDir s), KillResolved]"
    using kill_then_close [OF c, of w] by blast
  then have rm: "\<exists>mid. effects_since w ?w2 = mid @ [RimrafSync (chromeDataDir s), KillResolved]"
    by (simp add: effects_since_def)
  have again: "tmpDirandPidFileReady s \<longrightarrow>
        count_effects is_mktmp ?w3 = count_effects is_mktmp ?w2
        \<and> count_effects is_open ?w3 = count_effects is_open ?w2
        \<and> tmpDirandPidFileReady ?s3 \<and> chromeDataDir ?s3 = chromeDataDir s"
  proof
    assume "tmpDirandPidFileReady s"
    then have r2: "tmpDirandPidFileReady ?s2" by simp
    from launch_ready_count [OF r2, of ?w2] launch_ready_keeps [OF r2, of ?w2] keep(4)
    show "count_effects is_mktmp ?w3 = count_effects is_mktmp ?w2
        \<and> count_effects is_open ?w3 = count_effects is_open ?w2
        \<and> tmpDirandPidFileReady ?s3 \<and> chromeDataDir ?s3 = chromeDataDir s"
      by simp
  qed
  have reuse: "tmpDirandPidFileReady s \<and> pidFile s \<noteq> None \<and> truthy_str (chromePath s)
        \<and> (truthy_nat (port s) \<longrightarrow> \<not> probe_outcome w (count_effects is_probe w)) \<longrightarrow>
        (\<exists>fl. SpawnChild (chromePath s) fl (chromeOutFile ?s2) (chromeErrorFile ?s2)
                 (count_effects is_spawn ?w2) \<in> set (effects_since ?w2 ?w3)
              \<and> ''--user-data-dir='' @ template_str (chromeDataDir s) \<in> set fl)"
  proof (intro impI, elim conjE)
    assume a: "tmpDirandPidFileReady s" "pidFile s \<noteq> None" "truthy_str (chromePath s)"
      "truthy_nat (port s) \<longrightarrow> \<not> probe_outcome w (count_effects is_probe w)"
    have r2: "tmpDirandPidFileReady ?s2" "pidFile ?s2 \<noteq> None" "truthy_str (chromePath ?s2)"
      using a(1-3) by simp_all
    have p2: "truthy_nat (port ?s2) \<longrightarrow> \<not> probe_outcome ?w2 (count_effects is_probe ?w2)"
      using a(4) by (simp add: kill_then_close_probes)
    from launch_ready_spawns [OF r2(1) none r2(2,3) p2]
    show "\<exists>fl. SpawnChild (chromePath s) fl (chromeOutFile ?s2) (chromeErrorFile ?s2)
                 (count_effects is_spawn ?w2) \<in> set (effects_since ?w2 ?w3)
              \<and> ''--user-data-dir='' @ template_str (chromeDataDir s) \<in> set fl"
      by (simp only: keep)
  qed
  from keep(1-4) none rm again reuse
  show "let s1 = fst (snd (kill s w)); w1 = snd (snd (kill s w));
          s2 = fst (on_close c s1 w1); w2 = snd (on_close c s1 w1);
          s3 = fst (snd (launch s2 w2)); w3 = snd (snd (launch s2 w2))
      in tmpDirandPidFileReady s2 = tmpDirandPidFileReady s
         \<and> port s2 = port s \<and> chromePath s2 = chromePath s
         \<and> chromeDataDir s2 = chromeDataDir s
         \<and> chromeProcess s2 = None
         \<and> (\<exists>mid. effects_since w w2 = mid @ [RimrafSync (chromeDataDir s), KillResolved])
         \<and> (tmpDirandPidFileReady s \<longrightarrow>
              count_effects is_mktmp w3 = count_effects is_mktmp w2
              \<and> count_effects is_open w3 = count_effects is_open w2
              \<and> tmpDirandPidFileReady s3 \<and> chromeDataDir s3 = chromeDataDir s)
         \<and> (tmpDirandPidFileReady s \<and> pidFile s \<noteq> None \<and> truthy_str (chromePath s)
              \<and> (truthy_nat (port s) \<longrightarrow> \<not> probe_outcome w (count_effects is_probe w)) \<longrightarrow>
              (\<exists>fl. SpawnChild (chromePath s) fl (chromeOutFile s2) (chromeErrorFile s2)
                       (count_effects is_spawn w2) \<in> set (effects_since w2 w3)
                    \<and> ''--user-data-dir='' @ template_str (chromeDataDir s) \<in> set fl))"
    unfolding Let_def by blast
qed

theorem kill_keeps_workspace_guard_witness:
  "chromeProcess (fst example_session) = Some 0
   \<and> tmpDirandPidFileReady (fst example_session)
   \<and> pidFile (fst example_session) \<noteq> None
   \<and> truthy_str (chromePath (fst example_session))
   \<and> \<not> probe_outcome ((snd example_session)\<lparr>probe_outcome := (\<lambda>k. False)\<rparr>) (count_effects is_probe ((snd example_session)\<lparr>probe_outcome := (\<lambda>k. False)\<rparr>))
   \<and> tmpDirandPidFileReady (fst (on_close 0 (fst (snd (kill (fst example_session) ((snd example_session)\<lparr>probe_outcome := (\<lambda>k. False)\<rparr>)))) (snd (snd (kill (fst example_session) ((snd example_session)\<lparr>probe_outcome := (\<lambda>k. False)\<rparr>))))))
   \<and> chromeDataDir (fst (on_close 0 (fst (snd (kill (fst example_session) ((snd example_session)\<lparr>probe_outcome := (\<lambda>k. False)\<rparr>)))) (snd (snd (kill (fst example_session) ((snd example_session)\<lparr>probe_outcome := (\<lambda>k. False)\<rparr>)))))) = Some ''/tmp/chrome0''
   \<and> chromeProcess (fst (on_close 0 (fst (snd (kill (fst example_session) ((snd example_session)\<lparr>probe_outcome := (\<lambda>k. False)\<rparr>)))) (snd (snd (kill (fst example_session) ((snd example_session)\<lparr>probe_outcome := (\<lambda>k. False)\<rparr>)))))) = None
   \<and> count_effects is_mktmp (snd (snd (launch (fst (on_close 0 (fst (snd (kill (fst example_session) ((snd example_session)\<lparr>probe_outcome := (\<lambda>k. False)\<rparr>)))) (snd (snd (kill (fst example_session) ((snd example_session)\<lparr>probe_outcome := (\<lambda>k. False)\<rparr>)))))) (snd (on_close 0 (fst (snd (kill (fst example_session) ((snd example_session)\<lparr>probe_outcome := (\<lambda>k. False)\<rparr>)))) (snd (snd (kill (fst example_session) ((snd example_session)\<lparr>probe_outcome := (\<lambda>k. False)\<rparr>))))))))) = count_effects is_mktmp (snd (on_close 0 (fst (snd (kill (fst example_session) ((snd example_session)\<lparr>probe_outcome := (\<lambda>k. False)\<rparr>)))) (snd (snd (kill (fst example_session) ((snd example_session)\<lparr>probe_outcome := (\<lambda>k. False)\<rparr>))))))
   \<and> chromeDataDir (fst (snd (launch (fst (on_close 0 (fst (snd (kill (fst example_session) ((snd example_session)\<lparr>probe_outcome := (\<lambda>k. False)\<rparr>)))) (snd (snd (kill (fst example_session) ((snd example_session)\<lparr>probe_outcome := (\<lambda>k. False)\<rparr>)))))) (snd (on_close 0 (fst (snd (kill (fst example_session) ((snd example_session)\<lparr>probe_outcome := (\<lambda>k. False)\<rparr>)))) (snd (snd (kill (fst example_session) ((snd example_session)\<lparr>probe_outcome := (\<lambda>k. False)\<rparr>))))))))) = Some ''/tmp/chrome0''
   \<and> (\<exists>fl. SpawnChild (Some ''/usr/bin/chrome'') fl (chromeOutFile (fst (on_close 0 (fst (snd (kill (fst example_session) ((snd example_session)\<lparr>probe_outcome := (\<lambda>k. False)\<rparr>)))) (snd (snd (kill (fst example_session) ((snd example_session)\<lparr>probe_outcome := (\<lambda>k. False)\<rparr>))))))) (chromeErrorFile (fst (on_close 0 (fst (snd (kill (fst example_session) ((snd example_session)\<lparr>probe_outcome := (\<lambda>k. False)\<rparr>)))) (snd (snd (kill (fst example_session) ((snd example_session)\<lparr>probe_outcome := (\<lambda>k. False)\<rparr>)))))))
              (count_effects is_spawn (snd (on_close 0 (fst (snd (kill (fst example_session) ((snd example_session)\<lparr>probe_outcome := (\<lambda>k. False)\<rparr>)))) (snd (snd (kill (fst example_session) ((snd example_session)\<lparr>probe_outcome := (\<lambda>k. False)\<rparr>))))))) \<in> set (effects_since (snd (on_close 0 (fst (snd (kill (fst example_session) ((snd example_session)\<lparr>probe_outcome := (\<lambda>k. False)\<rparr>)))) (snd (snd (kill (fst example_session) ((snd example_session)\<lparr>probe_outcome := (\<lambda>k. False)\<rparr>)))))) (snd (snd (launch (fst (on_close 0 (fst (snd (kill (fst example_session) ((snd example_session)\<lparr>probe_outcome := (\<lambda>k. False)\<rparr>)))) (snd (snd (kill (fst example_session) ((snd example_session)\<lparr>probe_outcome := (\<lambda>k. False)\<rparr>)))))) (snd (on_close 0 (fst (snd (kill (fst example_session) ((snd example_session)\<lparr>probe_outcome := (\<lambda>k. False)\<rparr>)))) (snd (snd (kill (fst example_session) ((snd example_session)\<lparr>probe_outcome := (\<lambda>k. False)\<rparr>))))))))))
            \<and> ''--user-data-dir=/tmp/chrome0'' \<in> set fl)"
proof -
  have x: "chromeProcess (fst example_session) = Some 0" "tmpDirandPidFileReady (fst example_session)"
    "chromeDataDir (fst example_session) = Some ''/tmp/chrome0''" "pidFile (fst example_session) \<noteq> None"
    "truthy_str (chromePath (fst example_session))" "chromePath (fst example_session) = Some ''/usr/bin/chrome''"
    by (simp_all add: example_session_eq truthy_str_def)
  from kill_keeps_workspace_guard [of "(fst example_session)" 0 "((snd example_session)\<lparr>probe_outcome := (\<lambda>k. False)\<rparr>)"] x
  show ?thesis by (simp add: Let_def template_str_def)
qed

end
